theory Spec2Isabelle
  imports Complex_Main "HOL-Library.Product_Lexorder"
begin

section \<open>Data model (domain/types.py)\<close>

text \<open>
  Python floats are modelled as the reals: every tolerance, comparison and arithmetic
  step of the source is kept, rounding error is not. Dictionaries with a fixed key set
  (\<open>TypedDict\<close>) and dataclasses are records; a key that may be absent or \<open>None\<close>
  is an \<open>option\<close> field. Record fields of \<open>Item\<close>, \<open>Candidate\<close>,
  \<open>PlacedItem\<close>, \<open>FreeRects\<close>, \<open>PlanState\<close> and \<open>PlanResult\<close> carry a short
  prefix, since the source's names (\<open>x\<close>, \<open>id\<close>, \<open>length\<close>, \<open>placed\<close>, ...) are
  variables or library constants here.
\<close>

datatype ItemStatus = Status_ok | Status_unplaced | Status_box_loose | Status_stacked

datatype ModeName = Mode_weight | Mode_volume | Mode_mixed

record Vehicle =
  innerWidth :: real
  innerLength :: real
  innerHeight :: real
  fillFactorFloor :: "real option"
  fillFactorVolume :: "real option"
  payloadMaxKg :: "real option"
  axleALimitKg :: "real option"
  axleBLimitKg :: "real option"
  axleAPosFromHeadM :: "real option"
  axleBPosFromHeadM :: "real option"

text \<open>
  The identification and provider fields of \<open>Item\<close> (\<open>taskId\<close>, \<open>routeId\<close>, ...) are
  only serialised, never read by the placement engine; they are left out.
\<close>

record Item =
  it_id :: string
  it_palletType :: "string option"
  it_palletTypeNorm :: "string option"
  it_width :: real
  it_length :: real
  it_height :: real
  it_weight :: real
  it_ratio :: real
  it_canBeBase :: bool
  it_canBeStacked :: bool
  it_status :: ItemStatus

record AABB =
  minX :: real
  maxX :: real
  minY :: real
  maxY :: real
  minZ :: real
  maxZ :: real

type_synonym Rect = "real \<times> real \<times> real \<times> real"

text \<open>
  A pattern identifier is the string \<open>"scan"\<close> the pattern generators write, or
  \<open>"p<n>"\<close> for the running number \<open>n\<close> the candidate generator assigns. Both are
  non-empty strings, hence truthy.
\<close>

datatype PatternId = Scan | Seq nat

text \<open>The keys of a candidate's \<open>meta\<close> dictionary; \<open>None\<close> is an absent key.\<close>

record Meta =
  m_pattern :: "string option"
  m_patternId :: "PatternId option"
  m_rect :: "Rect option"
  m_anchor :: "(real \<times> real) option"
  m_slotZ0 :: "real option"
  m_role :: "string option"
  m_row :: "nat option"
  m_idx :: "nat option"
  m_kRank :: "nat option"

record Candidate =
  c_itemId :: string
  c_x :: real
  c_y :: real
  c_z :: real
  c_rotationY :: int
  c_dx :: real
  c_dy :: real
  c_dz :: real
  c_aabb :: AABB
  c_kind :: string
  c_meta :: Meta

record PlacedItem =
  p_item :: Item
  p_x :: real
  p_y :: real
  p_z :: real
  p_rotationY :: int
  p_dims :: "real \<times> real \<times> real"
  p_aabb :: AABB
  p_corner :: "real \<times> real"
  p_status :: ItemStatus

record AxleLoads =
  payload_kg :: real
  axleA_kg :: real
  axleB_kg :: real

record ModeDecision =
  mode :: ModeName
  weight_pressure :: real
  floor_pressure :: real
  volume_pressure :: real
  alpha :: "real option"

text \<open>
  The module \<open>settings\<close> is not part of the sources. Its attributes are parameters:
  the ones read directly are plain fields, the ones read through
  \<open>getattr(SETTINGS, name, default)\<close> are optional and fall back to the default the
  call site gives.
\<close>

record ZoneConfig =
  zone_a :: real
  zone_b :: real
  zone_c :: real
  zone_d :: real

record Settings =
  EPS :: real
  MODE_PRESSURE_THRESHOLD :: real
  FILL_FACTOR_FLOOR_DEFAULT :: real
  FILL_FACTOR_VOLUME_DEFAULT :: real
  TOP_N_WINDOW :: int
  POLICY_SCORE_WEIGHT :: "real option"
  PACK_DENSITY_W :: "real option"
  PACK_TOUCH_W :: "real option"
  PACK_SLACK_W :: "real option"
  POLICY_ZONES :: "ZoneConfig option"
  POLICY_CLASS_PRIORITY :: "(string \<Rightarrow> int option) option"
  POLICY_HI_WEIGHT_ABS :: "real option"
  POLICY_HI_VOL_ABS :: "real option"
  POLICY_HI_WEIGHT_ABS_MIXED :: "real option"
  POLICY_W_HI_AB_BONUS :: "real option"
  POLICY_W_HI_CD_PENALTY :: "real option"
  POLICY_W_LO_CD_BONUS :: "real option"
  POLICY_W_LO_AB_PENALTY :: "real option"
  POLICY_V_BIG_ABC_BONUS :: "real option"
  POLICY_V_BIG_D_PENALTY :: "real option"
  POLICY_V_SMALL_CD_BONUS :: "real option"
  POLICY_BIG_FOOTPRINT_M2 :: "real option"
  POLICY_M_HI_AB_BONUS :: "real option"
  POLICY_M_LO_AB_PENALTY :: "real option"
  POLICY_OVERSIZE_BONUS :: "real option"
  POLICY_BOX_AB_PENALTY :: "real option"
  POLICY_BOX_CD_BONUS :: "real option"
  POLICY_HARD_OVERSIZE_IN_D :: "bool option"

definition get_setting :: "'a option \<Rightarrow> 'a \<Rightarrow> 'a" where
  "get_setting v dflt = (case v of None \<Rightarrow> dflt | Some a \<Rightarrow> a)"

text \<open>The default tolerance \<open>eps = 1e-9\<close> of the geometry and load checks.\<close>

definition default_eps :: real where
  "default_eps = 1 / 10 ^ 9"

text \<open>The tolerance \<open>eps = 1e-6\<close> that \<open>reserve\<close> passes to \<open>merge_adjacent\<close>.\<close>

definition merge_eps :: real where
  "merge_eps = 1 / 10 ^ 6"

section \<open>Geometry kernel (geometry/aabb.py)\<close>

definition aabb_from_center :: "real \<Rightarrow> real \<Rightarrow> real \<Rightarrow> real \<Rightarrow> real \<Rightarrow> real \<Rightarrow> AABB" where
  "aabb_from_center x y z dx dy dz =
     \<lparr>minX = x - dx / 2, maxX = x + dx / 2,
      minY = y - dy / 2, maxY = y + dy / 2,
      minZ = z - dz / 2, maxZ = z + dz / 2\<rparr>"

definition aabb_intersects :: "AABB \<Rightarrow> AABB \<Rightarrow> real \<Rightarrow> bool" where
  "aabb_intersects a b eps =
     (if maxX a \<le> minX b + eps \<or> minX a \<ge> maxX b - eps then False
      else if maxY a \<le> minY b + eps \<or> minY a \<ge> maxY b - eps then False
      else if maxZ a \<le> minZ b + eps \<or> minZ a \<ge> maxZ b - eps then False
      else True)"

definition oob_check :: "AABB \<Rightarrow> Vehicle \<Rightarrow> real \<Rightarrow> bool" where
  "oob_check aabb vehicle eps =
     (let half_w = innerWidth vehicle / 2;
          half_l = innerLength vehicle / 2;
          inner_h = innerHeight vehicle
      in if minX aabb < - half_w - eps \<or> maxX aabb > half_w + eps then True
         else if minZ aabb < - half_l - eps \<or> maxZ aabb > half_l + eps then True
         else if minY aabb < 0 - eps \<or> maxY aabb > inner_h + eps then True
         else False)"

fun collides_with_any :: "AABB \<Rightarrow> PlacedItem list \<Rightarrow> real \<Rightarrow> bool" where
  "collides_with_any aabb [] eps = False"
| "collides_with_any aabb (p # placed) eps =
     (if aabb_intersects aabb (p_aabb p) eps then True
      else collides_with_any aabb placed eps)"

section \<open>Placed items (catalogs/placed\_item.py)\<close>

definition placed_from_candidate :: "Candidate \<Rightarrow> Item \<Rightarrow> PlacedItem" where
  "placed_from_candidate candidate item =
     \<lparr>p_item = item,
      p_x = c_x candidate, p_y = c_y candidate, p_z = c_z candidate,
      p_rotationY = c_rotationY candidate,
      p_dims = (c_dx candidate, c_dy candidate, c_dz candidate),
      p_aabb = c_aabb candidate,
      p_corner = (minX (c_aabb candidate), minZ (c_aabb candidate)),
      p_status = it_status item\<rparr>"

section \<open>Axle load model (constraints/axles.py)\<close>

text \<open>
  The two accumulation loops of \<open>compute_loads\<close> are sums over the placed list; over
  the reals the order of summation does not matter.
\<close>

definition compute_loads :: "PlacedItem list \<Rightarrow> Vehicle \<Rightarrow> AxleLoads" where
  "compute_loads placed vehicle =
     (let total = sum_list (map (\<lambda>p. it_weight (p_item p)) placed) in
      case (axleAPosFromHeadM vehicle, axleBPosFromHeadM vehicle) of
        (Some a_pos, Some b_pos) \<Rightarrow>
          if \<bar>b_pos - a_pos\<bar> < 1 / 10 ^ 9
          then \<lparr>payload_kg = total, axleA_kg = 0, axleB_kg = 0\<rparr>
          else
            (let L = innerLength vehicle;
                 z0 = - L / 2;
                 span = b_pos - a_pos;
                 rb = (\<lambda>p. it_weight (p_item p) * ((p_z p - z0) - a_pos) / span);
                 ra = (\<lambda>p. it_weight (p_item p) - rb p)
             in \<lparr>payload_kg = total,
                 axleA_kg = sum_list (map ra placed),
                 axleB_kg = sum_list (map rb placed)\<rparr>)
      | _ \<Rightarrow> \<lparr>payload_kg = total, axleA_kg = 0, axleB_kg = 0\<rparr>)"

definition check_loads :: "AxleLoads \<Rightarrow> Vehicle \<Rightarrow> bool \<times> string list" where
  "check_loads loads vehicle =
     (let r1 = (case payloadMaxKg vehicle of
                  Some payload_max \<Rightarrow>
                    if payload_kg loads > payload_max + 1 / 10 ^ 9 then [''payload_limit''] else []
                | None \<Rightarrow> []);
          r2 = (case axleALimitKg vehicle of
                  Some a_lim \<Rightarrow>
                    if axleA_kg loads > a_lim + 1 / 10 ^ 9 then [''axleA_limit''] else []
                | None \<Rightarrow> []);
          r3 = (case axleBLimitKg vehicle of
                  Some b_lim \<Rightarrow>
                    if axleB_kg loads > b_lim + 1 / 10 ^ 9 then [''axleB_limit''] else []
                | None \<Rightarrow> []);
          reasons = r1 @ r2 @ r3
      in (reasons = [], reasons))"

definition would_pass_with_candidate ::
  "PlacedItem list \<Rightarrow> Candidate \<Rightarrow> Item \<Rightarrow> Vehicle \<Rightarrow> bool \<times> string list \<times> AxleLoads" where
  "would_pass_with_candidate placed candidate item vehicle =
     (let tmp = placed @ [placed_from_candidate candidate item];
          loads = compute_loads tmp vehicle;
          (ok, reasons) = check_loads loads vehicle
      in (ok, reasons, loads))"

section \<open>Bounds and collision gates (constraints/bounds.py)\<close>

definition check_oob :: "Candidate \<Rightarrow> Vehicle \<Rightarrow> bool \<times> string list" where
  "check_oob candidate vehicle =
     (if oob_check (c_aabb candidate) vehicle default_eps then (False, [''oob''])
      else (True, []))"

definition check_collision :: "Candidate \<Rightarrow> PlacedItem list \<Rightarrow> bool \<times> string list" where
  "check_collision candidate placed =
     (if collides_with_any (c_aabb candidate) placed default_eps then (False, [''collision''])
      else (True, []))"

section \<open>Mode and pressure classifier (scoring/coeff.py)\<close>

definition item_ratio :: "Item \<Rightarrow> real" where
  "item_ratio i = (if it_ratio i > 0 then it_ratio i else 1)"

definition total_weight :: "Item list \<Rightarrow> real" where
  "total_weight items = sum_list (map (\<lambda>i. max 0 (it_weight i)) items)"

definition total_volume :: "Item list \<Rightarrow> real" where
  "total_volume items =
     sum_list (map (\<lambda>i. max 0 (it_width i) * max 0 (it_length i) * max 0 (it_height i)) items)"

definition total_floor_demand :: "Item list \<Rightarrow> real" where
  "total_floor_demand items = sum_list (map item_ratio items)"

definition weight_pressure_of :: "Settings \<Rightarrow> Item list \<Rightarrow> Vehicle \<Rightarrow> real" where
  "weight_pressure_of cfg items vehicle =
     (let weight_capacity = (case payloadMaxKg vehicle of
                               Some payload_max \<Rightarrow> payload_max
                             | None \<Rightarrow> max (total_weight items) 1)
      in total_weight items / max weight_capacity (EPS cfg))"

definition floor_pressure_of :: "Settings \<Rightarrow> Item list \<Rightarrow> Vehicle \<Rightarrow> real" where
  "floor_pressure_of cfg items vehicle =
     (let fill_floor = get_setting (fillFactorFloor vehicle) (FILL_FACTOR_FLOOR_DEFAULT cfg);
          floor_capacity_m2 = (innerWidth vehicle * innerLength vehicle) * fill_floor;
          floor_capacity = floor_capacity_m2 / 1
      in total_floor_demand items / max floor_capacity (EPS cfg))"

definition volume_pressure_of :: "Settings \<Rightarrow> Item list \<Rightarrow> Vehicle \<Rightarrow> real" where
  "volume_pressure_of cfg items vehicle =
     (let fill_vol = get_setting (fillFactorVolume vehicle) (FILL_FACTOR_VOLUME_DEFAULT cfg);
          vol_capacity = (innerWidth vehicle * innerLength vehicle * innerHeight vehicle) * fill_vol
      in total_volume items / max vol_capacity (EPS cfg))"

definition detect_mode :: "Settings \<Rightarrow> Item list \<Rightarrow> Vehicle \<Rightarrow> ModeDecision" where
  "detect_mode cfg items vehicle =
     (if items = [] then
        \<lparr>mode = Mode_mixed, weight_pressure = 0, floor_pressure = 0, volume_pressure = 0,
         alpha = Some (1 / 2)\<rparr>
      else
        (let wp = weight_pressure_of cfg items vehicle;
             fp = floor_pressure_of cfg items vehicle;
             vp = volume_pressure_of cfg items vehicle;
             thr = MODE_PRESSURE_THRESHOLD cfg
         in if wp \<ge> thr \<and> fp < thr then
              \<lparr>mode = Mode_weight, weight_pressure = wp, floor_pressure = fp,
               volume_pressure = vp, alpha = None\<rparr>
            else if fp \<ge> thr \<and> wp < thr then
              \<lparr>mode = Mode_volume, weight_pressure = wp, floor_pressure = fp,
               volume_pressure = vp, alpha = None\<rparr>
            else
              (let raw = (wp - fp + 1) / 2;
                   al = min (8 / 10) (max (2 / 10) raw)
               in \<lparr>mode = Mode_mixed, weight_pressure = wp, floor_pressure = fp,
                   volume_pressure = vp, alpha = Some al\<rparr>)))"

definition compute_k :: "Item \<Rightarrow> ModeDecision \<Rightarrow> real" where
  "compute_k item md =
     (let r = item_ratio item;
          w = max 0 (it_weight item);
          vol = max 0 (it_width item) * max 0 (it_length item) * max 0 (it_height item)
      in if mode md = Mode_weight then w * r
         else if mode md = Mode_volume then vol * r
         else (let al = (case alpha md of Some a \<Rightarrow> a | None \<Rightarrow> 1 / 2)
               in al * (w * r) + (1 - al) * (vol * r)))"

section \<open>Free-space tracker (geometry/free\_rects.py)\<close>

definition rect_area :: "Rect \<Rightarrow> real" where
  "rect_area r = (case r of (x0, x1, z0, z1) \<Rightarrow> max 0 (x1 - x0) * max 0 (z1 - z0))"

definition rect_contains :: "Rect \<Rightarrow> Rect \<Rightarrow> real \<Rightarrow> bool" where
  "rect_contains big small eps =
     (case big of (b0, b1, b2, b3) \<Rightarrow>
      case small of (s0, s1, s2, s3) \<Rightarrow>
        s0 \<ge> b0 - eps \<and> s1 \<le> b1 + eps \<and> s2 \<ge> b2 - eps \<and> s3 \<le> b3 + eps)"

definition rect_intersects :: "Rect \<Rightarrow> Rect \<Rightarrow> real \<Rightarrow> bool" where
  "rect_intersects a b eps =
     (case a of (a0, a1, a2, a3) \<Rightarrow>
      case b of (b0, b1, b2, b3) \<Rightarrow>
        if a1 \<le> b0 + eps \<or> a0 \<ge> b1 - eps then False
        else if a3 \<le> b2 + eps \<or> a2 \<ge> b3 - eps then False
        else True)"

definition split_rect :: "Rect \<Rightarrow> Rect \<Rightarrow> real \<Rightarrow> Rect list" where
  "split_rect free used eps =
     (case free of (fx0, fx1, fz0, fz1) \<Rightarrow>
      case used of (ux0, ux1, uz0, uz1) \<Rightarrow>
        (let out =
              (if ux0 > fx0 + eps then [(fx0, min ux0 fx1, fz0, fz1)] else [])
            @ (if ux1 < fx1 - eps then [(max ux1 fx0, fx1, fz0, fz1)] else [])
            @ (if uz0 > fz0 + eps then [(max fx0 ux0, min fx1 ux1, fz0, min uz0 fz1)] else [])
            @ (if uz1 < fz1 - eps then [(max fx0 ux0, min fx1 ux1, max uz1 fz0, fz1)] else [])
         in filter (\<lambda>r. rect_area r > 1 / 10 ^ 9) out))"

text \<open>
  \<open>prune_contained\<close> keeps the rectangle at index \<open>i\<close> unless a rectangle at another
  index contains it (within \<open>eps\<close>).
\<close>

definition prune_contained :: "Rect list \<Rightarrow> real \<Rightarrow> Rect list" where
  "prune_contained rects eps =
     map snd
       (filter (\<lambda>(i, r). \<not> list_ex (\<lambda>(j, other). i \<noteq> j \<and> rect_contains other r eps)
                                   (enumerate 0 rects))
          (enumerate 0 rects))"

definition almost_equal :: "real \<Rightarrow> real \<Rightarrow> real \<Rightarrow> bool" where
  "almost_equal a b eps = (\<bar>a - b\<bar> \<le> eps)"

definition normalize_rect :: "Rect \<Rightarrow> real \<Rightarrow> Rect" where
  "normalize_rect r eps =
     (case r of (x0, x1, z0, z1) \<Rightarrow>
        (let (x0, x1) = (if x1 < x0 then (x1, x0) else (x0, x1));
             (z0, z1) = (if z1 < z0 then (z1, z0) else (z0, z1));
             x0 = (if \<bar>x0\<bar> < eps then 0 else x0);
             x1 = (if \<bar>x1\<bar> < eps then 0 else x1);
             z0 = (if \<bar>z0\<bar> < eps then 0 else z0);
             z1 = (if \<bar>z1\<bar> < eps then 0 else z1)
         in (x0, x1, z0, z1)))"

text \<open>The local helper \<open>try_merge\<close> of \<open>merge_adjacent\<close>, with the enclosing \<open>eps\<close>.\<close>

definition try_merge :: "real \<Rightarrow> Rect \<Rightarrow> Rect \<Rightarrow> Rect option" where
  "try_merge eps a b =
     (case a of (ax0, ax1, az0, az1) \<Rightarrow>
      case b of (bx0, bx1, bz0, bz1) \<Rightarrow>
        if almost_equal az0 bz0 eps \<and> almost_equal az1 bz1 eps
           \<and> (ax1 \<ge> bx0 - eps \<and> bx1 \<ge> ax0 - eps)
        then Some (min ax0 bx0, max ax1 bx1, az0, az1)
        else if almost_equal ax0 bx0 eps \<and> almost_equal ax1 bx1 eps
           \<and> (az1 \<ge> bz0 - eps \<and> bz1 \<ge> az0 - eps)
        then Some (ax0, ax1, min az0 bz0, max az1 bz1)
        else None)"

text \<open>
  The flag list \<open>used\<close> of \<open>merge_adjacent\<close> is represented by the set of the indices
  whose flag is \<open>True\<close>. One pass of the inner \<open>for j\<close> loop is a fold over the indices
  of \<open>cur\<close>; its state is \<open>(merged, used, merged_any, changed)\<close>.
\<close>

definition merge_scan_step ::
  "real \<Rightarrow> Rect list \<Rightarrow> nat \<Rightarrow> nat \<Rightarrow> Rect \<times> nat set \<times> bool \<times> bool
     \<Rightarrow> Rect \<times> nat set \<times> bool \<times> bool" where
  "merge_scan_step eps cur i j st =
     (case st of (merged, used, merged_any, changed) \<Rightarrow>
        if i = j \<or> j \<in> used then st
        else (case try_merge eps merged (cur ! j) of
                None \<Rightarrow> st
              | Some m \<Rightarrow> (normalize_rect m eps, insert j used, True, True)))"

definition merge_scan ::
  "real \<Rightarrow> Rect list \<Rightarrow> nat \<Rightarrow> Rect \<times> nat set \<times> bool \<Rightarrow> Rect \<times> nat set \<times> bool \<times> bool" where
  "merge_scan eps cur i st =
     (case st of (merged, used, merged_any) \<Rightarrow>
        fold (merge_scan_step eps cur i) [0..<length cur] (merged, used, merged_any, False))"

lemma merge_scan_step_fold:
  "fold (merge_scan_step eps cur i) js (merged, used, merged_any, changed)
     = (merged', used', merged_any', changed')
   \<Longrightarrow> used \<subseteq> used' \<and> used' \<subseteq> used \<union> set js
       \<and> (changed' \<and> \<not> changed \<longrightarrow> used \<noteq> used')"
proof (induction js arbitrary: merged used merged_any changed)
  case Nil
  then show ?case by simp
next
  case (Cons j js)
  obtain m1 u1 a1 c1 where
    s: "merge_scan_step eps cur i j (merged, used, merged_any, changed) = (m1, u1, a1, c1)"
    by (cases "merge_scan_step eps cur i j (merged, used, merged_any, changed)") auto
  have st: "used \<subseteq> u1 \<and> u1 \<subseteq> insert j used \<and> (c1 \<and> \<not> changed \<longrightarrow> j \<notin> used \<and> j \<in> u1)"
    using s by (auto simp: merge_scan_step_def split: if_splits option.splits)
  from Cons.prems s have
    "fold (merge_scan_step eps cur i) js (m1, u1, a1, c1) = (merged', used', merged_any', changed')"
    by simp
  from Cons.IH [OF this] st show ?case by auto
qed

lemma merge_scan_shrinks:
  assumes "merge_scan eps cur i (merged, used, merged_any) = (merged', used', merged_any', True)"
  shows "card ({..<length cur} - used') < card ({..<length cur} - used)"
proof -
  from assms have
    "fold (merge_scan_step eps cur i) [0..<length cur] (merged, used, merged_any, False)
       = (merged', used', merged_any', True)"
    by (simp add: merge_scan_def)
  from merge_scan_step_fold [OF this]
  have "used \<subseteq> used'" "used' \<subseteq> used \<union> {..<length cur}" "used \<noteq> used'"
    by (auto simp: lessThan_atLeast0)
  then have "{..<length cur} - used' \<subset> {..<length cur} - used"
    by blast
  then show ?thesis
    by (simp add: psubset_card_mono)
qed

text \<open>
  The \<open>while changed\<close> loop: passes over \<open>cur\<close> are repeated as long as one of them
  merges something.
\<close>

function merge_greedy ::
  "real \<Rightarrow> Rect list \<Rightarrow> nat \<Rightarrow> Rect \<times> nat set \<times> bool \<Rightarrow> Rect \<times> nat set \<times> bool" where
  "merge_greedy eps cur i (merged, used, merged_any) =
     (case merge_scan eps cur i (merged, used, merged_any) of
        (merged', used', merged_any', changed) \<Rightarrow>
          if changed then merge_greedy eps cur i (merged', used', merged_any')
          else (merged', used', merged_any'))"
  by pat_completeness auto
termination
  by (relation "measure (\<lambda>(eps, cur, i, merged, used, merged_any). card ({..<length cur} - used))")
     (auto dest: merge_scan_shrinks [OF sym])

text \<open>The body of the \<open>for i\<close> loop; its state is \<open>(used, nxt, merged_any)\<close>.\<close>

definition merge_round_step ::
  "real \<Rightarrow> Rect list \<Rightarrow> nat \<Rightarrow> nat set \<times> Rect list \<times> bool \<Rightarrow> nat set \<times> Rect list \<times> bool" where
  "merge_round_step eps cur i st =
     (case st of (used, nxt, merged_any) \<Rightarrow>
        if i \<in> used then st
        else (case merge_greedy eps cur i (cur ! i, used, merged_any) of
                (merged, used', merged_any') \<Rightarrow> (insert i used', nxt @ [merged], merged_any')))"

definition merge_round :: "real \<Rightarrow> Rect list \<Rightarrow> Rect list \<times> bool" where
  "merge_round eps cur =
     (case fold (merge_round_step eps cur) [0..<length cur] ({}, [], False) of
        (used, nxt, merged_any) \<Rightarrow> (nxt, merged_any))"

text \<open>The outer \<open>for _ in range(max_iters)\<close> loop with its \<open>break\<close>.\<close>

fun merge_iterate :: "real \<Rightarrow> nat \<Rightarrow> Rect list \<Rightarrow> Rect list" where
  "merge_iterate eps 0 cur = cur"
| "merge_iterate eps (Suc n) cur =
     (case merge_round eps cur of
        (nxt, merged_any) \<Rightarrow>
          (let nxt1 = prune_contained nxt eps;
               nxt2 = map (\<lambda>r. normalize_rect r eps) (filter (\<lambda>r. rect_area r > 1 / 10 ^ 9) nxt1)
           in if \<not> merged_any then nxt2 else merge_iterate eps n nxt2))"

definition merge_adjacent :: "Rect list \<Rightarrow> real \<Rightarrow> nat \<Rightarrow> Rect list" where
  "merge_adjacent rects eps max_iters =
     (if rects = [] then []
      else merge_iterate eps max_iters
             (map (\<lambda>r. normalize_rect r eps) (filter (\<lambda>r. rect_area r > 1 / 10 ^ 9) rects)))"

record FreeRects =
  fr_rects :: "Rect list"

definition init_for_vehicle :: "Vehicle \<Rightarrow> FreeRects" where
  "init_for_vehicle vehicle =
     (let half_w = innerWidth vehicle / 2;
          half_l = innerLength vehicle / 2
      in \<lparr>fr_rects = [(- half_w, half_w, - half_l, half_l)]\<rparr>)"

definition reserve :: "FreeRects \<Rightarrow> Rect \<Rightarrow> FreeRects" where
  "reserve fr used =
     (let new_rects = concat (map (\<lambda>r. if \<not> rect_intersects r used default_eps then [r]
                                        else split_rect r used default_eps) (fr_rects fr));
          new_rects = prune_contained new_rects default_eps;
          new_rects = merge_adjacent new_rects merge_eps 50
      in \<lparr>fr_rects = new_rects\<rparr>)"

section \<open>Plan state: the data (catalogs/plan\_state.py)\<close>

text \<open>
  The debug trail keeps the events of the run with the payload fields that identify
  the decision taken. The purely diagnostic \<open>pattern_rejected\<close> events and the score,
  statistics and policy-tag payloads are left out: the trail is append-only and the
  engine never reads it.
\<close>

datatype DebugEvent =
    Ev_mode_detected ModeDecision
  | Ev_candidates_generated nat nat nat nat nat
  | Ev_pattern_reject_summary nat
  | Ev_unplaced_all_remaining nat
  | Ev_pattern_committed "PatternId option" nat "string list"
  | Ev_candidate_chosen string string

record PlanState =
  s_task_id :: string
  s_transport_type :: string
  s_vehicle :: Vehicle
  s_mode :: ModeDecision
  s_debug :: "DebugEvent list"
  s_items_by_id :: "string \<Rightarrow> Item option"
  s_placed :: "PlacedItem list"
  s_unplaced :: "Item list"
  s_free_rects :: FreeRects
  s_loads :: "AxleLoads option"

record PlanResult =
  r_taskId :: string
  r_transportType :: string
  r_vehicle :: Vehicle
  r_mode :: ModeDecision
  r_placed :: "PlacedItem list"
  r_unplaced :: "Item list"
  r_loads :: "AxleLoads option"
  r_debug :: "DebugEvent list"

section \<open>Pattern generator (candidates/patterns.py)\<close>

definition MAX_PREFIX_STD :: nat where "MAX_PREFIX_STD = 14"
definition MAX_PREFIX_BIG :: nat where "MAX_PREFIX_BIG = 10"
definition MAX_VARIANTS_3 :: nat where "MAX_VARIANTS_3 = 6"
definition MAX_VARIANTS_5 :: nat where "MAX_VARIANTS_5 = 8"
definition MAX_VARIANTS_140P80 :: nat where "MAX_VARIANTS_140P80 = 20"

definition top_items :: "'a list \<Rightarrow> nat \<Rightarrow> 'a list" where
  "top_items items n = (if n \<le> 0 then [] else take (min (length items) n) items)"

definition close_to :: "real \<Rightarrow> real \<Rightarrow> real \<Rightarrow> bool" where
  "close_to tol x y = (\<bar>x - y\<bar> \<le> tol)"

definition is_std_80x120 :: "Item \<Rightarrow> bool" where
  "is_std_80x120 it =
     (let w = it_width it; l = it_length it; a = 80 / 100; b = 120 / 100; tol = 3 / 100
      in (close_to tol w a \<and> close_to tol l b) \<or> (close_to tol w b \<and> close_to tol l a))"

definition is_140x120 :: "Item \<Rightarrow> bool" where
  "is_140x120 it =
     (let w = it_width it; l = it_length it; a = 140 / 100; b = 120 / 100; tol = 3 / 100
      in (close_to tol w a \<and> close_to tol l b) \<or> (close_to tol w b \<and> close_to tol l a))"

definition rot_for :: "Item \<Rightarrow> real \<Rightarrow> real \<Rightarrow> int" where
  "rot_for it want_w want_l =
     (if \<bar>it_width it - want_w\<bar> \<le> 3 / 100 \<and> \<bar>it_length it - want_l\<bar> \<le> 3 / 100 then 0 else 90)"

text \<open>
  The footprint \<open>(dx, dz)\<close> of a unit under a rotation, the expression
  \<open>(width, length) if rot == 0 else (length, width)\<close> that the generators repeat.
\<close>

definition dims_for_rot :: "Item \<Rightarrow> int \<Rightarrow> real \<times> real" where
  "dims_for_rot it rot =
     (if rot = 0 then (it_width it, it_length it) else (it_length it, it_width it))"

definition empty_meta :: Meta where
  "empty_meta =
     \<lparr>m_pattern = None, m_patternId = None, m_rect = None, m_anchor = None,
      m_slotZ0 = None, m_role = None, m_row = None, m_idx = None, m_kRank = None\<rparr>"

text \<open>
  \<open>_build_candidate\<close>. Its \<open>meta2.setdefault("kRank", None)\<close> leaves an absent key
  at \<open>None\<close>, which is how the record already reads it.
\<close>

definition build_candidate ::
  "Item \<Rightarrow> real \<Rightarrow> real \<Rightarrow> real \<Rightarrow> int \<Rightarrow> string \<Rightarrow> Meta \<Rightarrow> Candidate" where
  "build_candidate it x y z rot kind meta =
     (let dx = fst (dims_for_rot it rot);
          dz = snd (dims_for_rot it rot);
          dy = it_height it;
          aabb = aabb_from_center x (y + dy / 2) z dx dy dz
      in \<lparr>c_itemId = it_id it, c_x = x, c_y = y, c_z = z, c_rotationY = rot,
          c_dx = dx, c_dy = dy, c_dz = dz, c_aabb = aabb, c_kind = kind, c_meta = meta\<rparr>)"

text \<open>
  The selection loop shared by \<open>_variants_take3\<close> and \<open>_variants_take5\<close>: index tuples
  are taken in order, a tuple with an index out of range or with an already seen
  sorted key is skipped, and the loop stops once \<open>cap\<close> variants are collected.
\<close>

fun variants_loop ::
  "nat \<Rightarrow> 'a list \<Rightarrow> nat list list \<Rightarrow> nat list list \<Rightarrow> 'a list list \<Rightarrow> 'a list list" where
  "variants_loop cap items [] seen out = out"
| "variants_loop cap items (idxs # rest) seen out =
     (if list_all (\<lambda>i. i < length items) idxs then
        (let key = sort idxs in
           if key \<in> set seen then variants_loop cap items rest seen out
           else (let out' = out @ [map (\<lambda>i. items ! i) idxs]
                 in if length out' \<ge> cap then out'
                    else variants_loop cap items rest (key # seen) out'))
      else if length out \<ge> cap then out
      else variants_loop cap items rest seen out)"

definition variants_take3 :: "'a list \<Rightarrow> 'a list list" where
  "variants_take3 items =
     (let n = length items in
      if n < 3 then []
      else variants_loop MAX_VARIANTS_3 items
             ([[0, 1, 2]]
              @ (if n \<ge> 4 then [[0, 1, 3], [0, 2, 3], [1, 2, 3]] else [])
              @ (if n \<ge> 5 then [[0, 1, 4], [0, 2, 4]] else []))
             [] [])"

definition variants_take5 :: "'a list \<Rightarrow> 'a list list" where
  "variants_take5 items =
     (let n = length items in
      if n < 5 then []
      else variants_loop MAX_VARIANTS_5 items
             ([[0, 1, 2, 3, 4]]
              @ (if n \<ge> 6 then [[0, 1, 2, 3, 5], [0, 1, 2, 4, 5], [0, 1, 3, 4, 5]] else [])
              @ (if n \<ge> 7 then [[0, 2, 3, 4, 5], [1, 2, 3, 4, 5], [0, 1, 2, 3, 6], [0, 1, 2, 4, 6]]
                 else []))
             [] [])"

text \<open>
  A row of a pattern: the loop \<open>for j, it in enumerate(row)\<close>, which gives up on the
  whole variant (\<open>ok = False; break\<close>) as soon as one slot rejects its unit.
\<close>

fun build_row :: "(nat \<Rightarrow> Item \<Rightarrow> Candidate option) \<Rightarrow> nat \<Rightarrow> Item list \<Rightarrow> Candidate list option" where
  "build_row slot j [] = Some []"
| "build_row slot j (it # its) =
     (case slot j it of
        None \<Rightarrow> None
      | Some c \<Rightarrow> (case build_row slot (Suc j) its of
                     None \<Rightarrow> None
                   | Some cs \<Rightarrow> Some (c # cs)))"

text \<open>
  One slot of a row: the unit is turned so that its footprint is about
  \<open>want_w\<close> by \<open>want_l\<close>, rejected when it exceeds \<open>max_dx\<close> by \<open>max_dz\<close>, and otherwise
  placed on the floor (\<open>y = 0\<close>) at \<open>x = minX + j * pitch + dx / 2\<close>, \<open>z = zc\<close>.
\<close>

definition row_slot ::
  "real \<Rightarrow> real \<Rightarrow> real \<Rightarrow> real \<Rightarrow> real \<Rightarrow> real \<Rightarrow> real \<Rightarrow> string \<Rightarrow> (nat \<Rightarrow> Meta)
     \<Rightarrow> nat \<Rightarrow> Item \<Rightarrow> Candidate option" where
  "row_slot want_w want_l max_dx max_dz rx0 pitch zc kind meta j it =
     (let rot = rot_for it want_w want_l;
          dx = fst (dims_for_rot it rot);
          dz = snd (dims_for_rot it rot)
      in if dx > max_dx \<or> dz > max_dz then None
         else (let x = rx0 + (real j * pitch) + dx / 2;
                   y = 0
               in Some (build_candidate it x y zc rot kind (meta j))))"

definition PATTERN_3ACROSS_W :: real where "PATTERN_3ACROSS_W = 240 / 100"
definition PATTERN_3ACROSS_Z :: real where "PATTERN_3ACROSS_Z = 120 / 100"

definition gen_3across :: "Rect \<Rightarrow> Item list \<Rightarrow> real \<Rightarrow> PatternId \<Rightarrow> Candidate list list" where
  "gen_3across rect std_items z_anchor pattern_id =
     (case rect of (rx0, rx1, rz0, rz1) \<Rightarrow>
        (let rect_w = rx1 - rx0;
             rect_l = rz1 - rz0
         in if rect_w + 1 / 10 ^ 9 < PATTERN_3ACROSS_W \<or> rect_l + 1 / 10 ^ 9 < PATTERN_3ACROSS_Z
            then []
            else (let pool = top_items std_items MAX_PREFIX_STD in
                  if length pool < 3 then []
                  else (let z0 = z_anchor;
                            zc = z0 + PATTERN_3ACROSS_Z / 2;
                            meta = (\<lambda>j. empty_meta\<lparr>m_pattern := Some ''3across'',
                                      m_patternId := Some pattern_id, m_rect := Some rect,
                                      m_slotZ0 := Some z0, m_idx := Some j, m_kRank := Some j\<rparr>)
                        in concat (map (\<lambda>trio.
                             case build_row (row_slot (80 / 100) (120 / 100) (86 / 100) (126 / 100)
                                               rx0 (80 / 100) zc ''pattern_3across'' meta) 0 trio of
                               None \<Rightarrow> []
                             | Some pack \<Rightarrow> [pack]) (variants_take3 pool))))))"

definition PATTERN_140P80_W :: real where "PATTERN_140P80_W = 220 / 100"
definition PATTERN_140P80_Z :: real where "PATTERN_140P80_Z = 120 / 100"

text \<open>
  The body of the inner loop of \<open>gen_140plus80\<close>, for a big unit that passed its own
  size check and one standard unit: no pack when the standard unit is too large or the
  two do not fit the rectangle's width, one pack of two candidates otherwise.
\<close>

definition pack_140plus80 ::
  "Rect \<Rightarrow> real \<Rightarrow> PatternId \<Rightarrow> nat \<times> Item \<Rightarrow> nat \<times> Item \<Rightarrow> Candidate list list" where
  "pack_140plus80 rect z_anchor pattern_id big std =
     (case rect of (rx0, rx1, rz0, rz1) \<Rightarrow>
        (let rect_w = rx1 - rx0;
             z0 = z_anchor;
             zc = z0 + PATTERN_140P80_Z / 2;
             y = 0;
             bi_idx = fst big; bi = snd big;
             si_idx = fst std; si = snd std;
             rot_b = rot_for bi (140 / 100) (120 / 100);
             dx_b = fst (dims_for_rot bi rot_b);
             rot_s = rot_for si (80 / 100) (120 / 100);
             dx_s = fst (dims_for_rot si rot_s);
             dz_s = snd (dims_for_rot si rot_s)
         in if dx_s > 86 / 100 \<or> dz_s > 126 / 100 then []
            else if (dx_b + dx_s) > rect_w + 1 / 10 ^ 9 then []
            else (let xb = rx0 + dx_b / 2;
                      xs = rx0 + dx_b + dx_s / 2;
                      meta_b = empty_meta\<lparr>m_pattern := Some ''140plus80'',
                        m_patternId := Some pattern_id, m_rect := Some rect,
                        m_slotZ0 := Some z0, m_role := Some ''big'', m_kRank := Some bi_idx\<rparr>;
                      meta_s = empty_meta\<lparr>m_pattern := Some ''140plus80'',
                        m_patternId := Some pattern_id, m_rect := Some rect,
                        m_slotZ0 := Some z0, m_role := Some ''std'', m_kRank := Some si_idx\<rparr>
                  in [[build_candidate bi xb y zc rot_b ''pattern_140plus80'' meta_b,
                       build_candidate si xs y zc rot_s ''pattern_140plus80'' meta_s]])))"

text \<open>
  \<open>gen_140plus80\<close> returns from inside its nested loops once \<open>MAX_VARIANTS_140P80\<close>
  packs are produced, that is, it returns the first that many packs of the full
  enumeration.
\<close>

definition gen_140plus80 ::
  "Rect \<Rightarrow> Item list \<Rightarrow> Item list \<Rightarrow> real \<Rightarrow> PatternId \<Rightarrow> Candidate list list" where
  "gen_140plus80 rect big_items std_items z_anchor pattern_id =
     (case rect of (rx0, rx1, rz0, rz1) \<Rightarrow>
        (let rect_w = rx1 - rx0;
             rect_l = rz1 - rz0
         in if rect_w + 1 / 10 ^ 9 < PATTERN_140P80_W \<or> rect_l + 1 / 10 ^ 9 < PATTERN_140P80_Z
            then []
            else (let big_pool = top_items big_items MAX_PREFIX_BIG;
                      std_pool = top_items std_items MAX_PREFIX_STD
                  in if big_pool = [] \<or> std_pool = [] then []
                     else take MAX_VARIANTS_140P80 (concat (map (\<lambda>big.
                            (let rot_b = rot_for (snd big) (140 / 100) (120 / 100);
                                 dx_b = fst (dims_for_rot (snd big) rot_b);
                                 dz_b = snd (dims_for_rot (snd big) rot_b)
                             in if dx_b > 146 / 100 \<or> dz_b > 126 / 100 then []
                                else concat (map (pack_140plus80 rect z_anchor pattern_id big)
                                               (enumerate 0 std_pool))))
                            (enumerate 0 big_pool))))))"

definition PATTERN_3P2_W :: real where "PATTERN_3P2_W = 240 / 100"
definition PATTERN_3P2_Z :: real where "PATTERN_3P2_Z = 200 / 100"

text \<open>
  The two rows of \<open>gen_3plus2\<close> and \<open>gen_zigzag\<close>: a variant is kept only when every
  slot of both rows accepts its unit.
\<close>

definition two_rows ::
  "(nat \<Rightarrow> Item \<Rightarrow> Candidate option) \<Rightarrow> (nat \<Rightarrow> Item \<Rightarrow> Candidate option)
     \<Rightarrow> Item list \<Rightarrow> Item list \<Rightarrow> Candidate list list" where
  "two_rows slot1 slot2 row1 row2 =
     (case build_row slot1 0 row1 of
        None \<Rightarrow> []
      | Some pack1 \<Rightarrow> (case build_row slot2 0 row2 of
                        None \<Rightarrow> []
                      | Some pack2 \<Rightarrow> [pack1 @ pack2]))"

definition gen_3plus2 :: "Rect \<Rightarrow> Item list \<Rightarrow> real \<Rightarrow> PatternId \<Rightarrow> Candidate list list" where
  "gen_3plus2 rect std_items z_anchor pattern_id =
     (case rect of (rx0, rx1, rz0, rz1) \<Rightarrow>
        (let rect_w = rx1 - rx0;
             rect_l = rz1 - rz0
         in if rect_w + 1 / 10 ^ 9 < PATTERN_3P2_W \<or> rect_l + 1 / 10 ^ 9 < PATTERN_3P2_Z then []
            else (let pool = top_items std_items MAX_PREFIX_STD in
                  if length pool < 5 then []
                  else (let z0 = z_anchor;
                            zc1 = z0 + (120 / 100) / 2;
                            z1 = z0 + 120 / 100;
                            zc2 = z1 + (80 / 100) / 2;
                            meta1 = (\<lambda>j. empty_meta\<lparr>m_pattern := Some ''3plus2'',
                                      m_patternId := Some pattern_id, m_rect := Some rect,
                                      m_slotZ0 := Some z0, m_row := Some 1, m_idx := Some j,
                                      m_kRank := Some j\<rparr>);
                            meta2 = (\<lambda>j. empty_meta\<lparr>m_pattern := Some ''3plus2'',
                                      m_patternId := Some pattern_id, m_rect := Some rect,
                                      m_slotZ0 := Some z0, m_row := Some 2, m_idx := Some j,
                                      m_kRank := Some (3 + j)\<rparr>)
                        in concat (map (\<lambda>five.
                             two_rows
                               (row_slot (80 / 100) (120 / 100) (86 / 100) (126 / 100)
                                  rx0 (80 / 100) zc1 ''pattern_3plus2'' meta1)
                               (row_slot (120 / 100) (80 / 100) (126 / 100) (86 / 100)
                                  rx0 (120 / 100) zc2 ''pattern_3plus2'' meta2)
                               (take 3 five) (drop 3 five))
                             (variants_take5 pool))))))"

definition PATTERN_ZIGZAG_W :: real where "PATTERN_ZIGZAG_W = 240 / 100"
definition PATTERN_ZIGZAG_Z :: real where "PATTERN_ZIGZAG_Z = 200 / 100"

definition gen_zigzag :: "Rect \<Rightarrow> Item list \<Rightarrow> real \<Rightarrow> PatternId \<Rightarrow> Candidate list list" where
  "gen_zigzag rect std_items z_anchor pattern_id =
     (case rect of (rx0, rx1, rz0, rz1) \<Rightarrow>
        (let rect_w = rx1 - rx0;
             rect_l = rz1 - rz0
         in if rect_w + 1 / 10 ^ 9 < PATTERN_ZIGZAG_W \<or> rect_l + 1 / 10 ^ 9 < PATTERN_ZIGZAG_Z
            then []
            else (let pool = top_items std_items MAX_PREFIX_STD in
                  if length pool < 5 then []
                  else (let z0 = z_anchor;
                            zc1 = z0 + (80 / 100) / 2;
                            z1 = z0 + 80 / 100;
                            zc2 = z1 + (120 / 100) / 2;
                            meta1 = (\<lambda>j. empty_meta\<lparr>m_pattern := Some ''zigzag'',
                                      m_patternId := Some pattern_id, m_rect := Some rect,
                                      m_slotZ0 := Some z0, m_row := Some 1, m_idx := Some j,
                                      m_kRank := Some j\<rparr>);
                            meta2 = (\<lambda>j. empty_meta\<lparr>m_pattern := Some ''zigzag'',
                                      m_patternId := Some pattern_id, m_rect := Some rect,
                                      m_slotZ0 := Some z0, m_row := Some 2, m_idx := Some j,
                                      m_kRank := Some (2 + j)\<rparr>)
                        in concat (map (\<lambda>five.
                             two_rows
                               (row_slot (120 / 100) (80 / 100) (126 / 100) (86 / 100)
                                  rx0 (120 / 100) zc1 ''pattern_zigzag'' meta1)
                               (row_slot (80 / 100) (120 / 100) (86 / 100) (126 / 100)
                                  rx0 (80 / 100) zc2 ''pattern_zigzag'' meta2)
                               (take 2 five) (drop 2 five))
                             (variants_take5 pool))))))"

section \<open>Candidate generator (candidates/generators.py)\<close>

text \<open>
  Python's \<open>round(x, 6)\<close>, used only as a deduplication key: the key is the integer
  nearest to \<open>x * 10^6\<close>, ties going to the even one.
\<close>

definition round6 :: "real \<Rightarrow> int" where
  "round6 x =
     (let y = x * 10 ^ 6;
          f = \<lfloor>y\<rfloor>;
          d = y - of_int f
      in if d < 1 / 2 then f
         else if d > 1 / 2 then f + 1
         else if even f then f else f + 1)"

fun dedup_anchors :: "(real \<times> real) list \<Rightarrow> (int \<times> int) list \<Rightarrow> (real \<times> real) list" where
  "dedup_anchors [] seen = []"
| "dedup_anchors (pt # pts) seen =
     (let k = (round6 (fst pt), round6 (snd pt)) in
      if k \<in> set seen then dedup_anchors pts seen
      else pt # dedup_anchors pts (k # seen))"

definition anchors_for_rect :: "Rect \<Rightarrow> real \<Rightarrow> real \<Rightarrow> (real \<times> real) list" where
  "anchors_for_rect r dx dz =
     (case r of (rx0, rx1, rz0, rz1) \<Rightarrow>
        (let x0 = rx0;
             x1 = rx1 - dx;
             z0 = rz0;
             z1 = rz1 - dz
         in if x1 < x0 - 1 / 10 ^ 9 \<or> z1 < z0 - 1 / 10 ^ 9 then []
            else dedup_anchors [(x0, z0), (x1, z0), (x0, z1), (x1, z1)] []))"

definition z_anchors_for_len :: "Rect \<Rightarrow> real \<Rightarrow> real list" where
  "z_anchors_for_len rect slot_len =
     (case rect of (rx0, rx1, rz0, rz1) \<Rightarrow>
        if (rz1 - rz0) + 1 / 10 ^ 9 < slot_len then []
        else [rz0, rz1 - slot_len])"

definition assign_pattern_id :: "Candidate list \<Rightarrow> PatternId \<Rightarrow> Candidate list" where
  "assign_pattern_id pack pid =
     map (\<lambda>c. c\<lparr>c_meta := (c_meta c)\<lparr>m_patternId := Some pid\<rparr>\<rparr>) pack"

text \<open>
  The packs of one free rectangle, in the order the generator emits them: 3-across,
  140-plus-80, 3-plus-2 and zigzag, each over its z anchors.
\<close>

definition pattern_packs_for_rect :: "Item list \<Rightarrow> Item list \<Rightarrow> Rect \<Rightarrow> Candidate list list" where
  "pattern_packs_for_rect std_items big_140 r =
       concat (map (\<lambda>z0. gen_3across r std_items z0 Scan) (z_anchors_for_len r PATTERN_3ACROSS_Z))
     @ concat (map (\<lambda>z0. gen_140plus80 r big_140 std_items z0 Scan)
                 (z_anchors_for_len r PATTERN_140P80_Z))
     @ concat (map (\<lambda>z0. gen_3plus2 r std_items z0 Scan) (z_anchors_for_len r PATTERN_3P2_Z))
     @ concat (map (\<lambda>z0. gen_zigzag r std_items z0 Scan) (z_anchors_for_len r PATTERN_ZIGZAG_Z))"

definition single_candidates :: "Rect list \<Rightarrow> Item \<Rightarrow> Candidate list" where
  "single_candidates rs it =
     concat (map (\<lambda>rot.
       (let dx = fst (dims_for_rot it rot);
            dz = snd (dims_for_rot it rot);
            dy = it_height it
        in concat (map (\<lambda>r.
             case r of (rx0, rx1, rz0, rz1) \<Rightarrow>
               if (rx1 - rx0) + 1 / 10 ^ 9 < dx then []
               else if (rz1 - rz0) + 1 / 10 ^ 9 < dz then []
               else map (\<lambda>(ax, az).
                      (let x = ax + dx / 2;
                           z = az + dz / 2;
                           y = 0;
                           aabb = aabb_from_center x (y + dy / 2) z dx dy dz
                       in \<lparr>c_itemId = it_id it, c_x = x, c_y = y, c_z = z, c_rotationY = rot,
                           c_dx = dx, c_dy = dy, c_dz = dz, c_aabb = aabb, c_kind = ''single'',
                           c_meta = empty_meta\<lparr>m_rect := Some r, m_anchor := Some (ax, az)\<rparr>\<rparr>))
                    (anchors_for_rect r dx dz)) rs))) [0, 90])"

text \<open>
  \<open>generate_floor_candidates\<close>. The running counter \<open>pattern_seq\<close> numbers the packs
  in the order they are produced, so the \<open>n\<close>-th pack gets the identifier \<open>p<n>\<close>.
\<close>

definition generate_floor_candidates :: "PlanState \<Rightarrow> Item list \<Rightarrow> Candidate list" where
  "generate_floor_candidates state items_subset =
     (let rs = take 250 (sort_key (\<lambda>r. - rect_area r) (fr_rects (s_free_rects state)));
          std_items = filter is_std_80x120 items_subset;
          big_140 = filter is_140x120 items_subset;
          packs = concat (map (pattern_packs_for_rect std_items big_140) rs);
          patterns = concat (map (\<lambda>(n, pack). assign_pattern_id pack (Seq n)) (enumerate 0 packs));
          singles = concat (map (single_candidates rs) items_subset)
      in patterns @ singles)"

section \<open>Unit classes (catalogs/item.py)\<close>

text \<open>
  \<open>str.upper\<close> on the ASCII letters, and the substring test \<open>needle in haystack\<close>.
  The only needle is \<open>"BOX"\<close>, which no non-ASCII letter upper-cases into.
\<close>

definition upper_char :: "char \<Rightarrow> char" where
  "upper_char c =
     (let n = (of_char c :: nat) in if 97 \<le> n \<and> n \<le> 122 then char_of (n - 32) else c)"

definition upper :: "string \<Rightarrow> string" where
  "upper str = map upper_char str"

fun contains_str :: "string \<Rightarrow> string \<Rightarrow> bool" where
  "contains_str needle [] = (needle = [])"
| "contains_str needle (c # cs) =
     (take (length needle) (c # cs) = needle \<or> contains_str needle cs)"

definition footprint_m2 :: "Item \<Rightarrow> real" where
  "footprint_m2 item = it_width item * it_length item"

definition is_box_like :: "Item \<Rightarrow> bool" where
  "is_box_like item =
     (let pt = upper (case it_palletType item of None \<Rightarrow> [] | Some t \<Rightarrow> t);
          ptn = upper (case it_palletTypeNorm item of None \<Rightarrow> [] | Some t \<Rightarrow> t)
      in if contains_str ''BOX'' pt \<or> contains_str ''BOX'' ptn then True
         else if footprint_m2 item \<le> (40 / 100) * (40 / 100) then True
         else if it_height item \<ge> 16 / 10 \<and> min (it_width item) (it_length item) \<le> 6 / 10 then True
         else False)"

definition is_standard_80x120 :: "Item \<Rightarrow> bool" where
  "is_standard_80x120 item =
     (let w = it_width item; l = it_length item; a = 80 / 100; b = 120 / 100; tol_m = 3 / 100
      in (close_to tol_m w a \<and> close_to tol_m l b) \<or> (close_to tol_m w b \<and> close_to tol_m l a))"

definition is_fin_100x120 :: "Item \<Rightarrow> bool" where
  "is_fin_100x120 item =
     (let w = it_width item; l = it_length item; a = 100 / 100; b = 120 / 100; tol_m = 3 / 100
      in (close_to tol_m w a \<and> close_to tol_m l b) \<or> (close_to tol_m w b \<and> close_to tol_m l a))"

definition is_square_120 :: "Item \<Rightarrow> bool" where
  "is_square_120 item =
     (\<bar>it_width item - 120 / 100\<bar> \<le> 3 / 100 \<and> \<bar>it_length item - 120 / 100\<bar> \<le> 3 / 100)"

definition is_oversize :: "Item \<Rightarrow> real option \<Rightarrow> bool" where
  "is_oversize item vehicle_inner_width =
     (let w = it_width item; l = it_length item; tol_m = 1 / 100
      in if max w l \<ge> 160 / 100 + tol_m then True
         else if max w l \<ge> 240 / 100 + tol_m then True
         else (case vehicle_inner_width of
                 Some viw \<Rightarrow> w \<ge> viw - 2 / 100 \<or> l \<ge> viw - 2 / 100
               | None \<Rightarrow> False))"

definition item_class :: "Item \<Rightarrow> real option \<Rightarrow> string" where
  "item_class item vehicle_inner_width =
     (if is_oversize item vehicle_inner_width then ''oversize''
      else if is_standard_80x120 item \<or> is_fin_100x120 item \<or> is_square_120 item then ''standard''
      else if is_box_like item then ''box''
      else ''other'')"

section \<open>Zoning policy and queue order (constraints/policies.py)\<close>

definition DEFAULT_ZONES :: ZoneConfig where
  "DEFAULT_ZONES = \<lparr>zone_a = 25 / 100, zone_b = 25 / 100, zone_c = 25 / 100, zone_d = 25 / 100\<rparr>"

definition x_from_head :: "real \<Rightarrow> Vehicle \<Rightarrow> real" where
  "x_from_head z_center vehicle = z_center + innerLength vehicle / 2"

definition zone_for_z :: "real \<Rightarrow> Vehicle \<Rightarrow> ZoneConfig \<Rightarrow> string" where
  "zone_for_z z_center vehicle zcfg =
     (let L = innerLength vehicle;
          x = x_from_head z_center vehicle;
          x = (if x < 0 then 0 else x);
          x = (if x > L then L else x);
          a_end = L * zone_a zcfg;
          b_end = a_end + L * zone_b zcfg;
          c_end = b_end + L * zone_c zcfg
      in if x \<le> a_end then ''A''
         else if x \<le> b_end then ''B''
         else if x \<le> c_end then ''C''
         else ''D'')"

record PolicyTags =
  tag_zone :: string
  tag_class :: string
  tag_hi :: string
  tag_mode :: ModeName

record PolicyDecision =
  hard_reject_reasons :: "string list"
  zone_penalty :: real
  zone_bonus :: real
  tags :: PolicyTags

definition zones_from_settings :: "Settings \<Rightarrow> ZoneConfig" where
  "zones_from_settings cfg = get_setting (POLICY_ZONES cfg) DEFAULT_ZONES"

definition is_high_value :: "Settings \<Rightarrow> Item \<Rightarrow> ModeDecision \<Rightarrow> bool" where
  "is_high_value cfg item md =
     (let thr_w = get_setting (POLICY_HI_WEIGHT_ABS cfg) 700;
          thr_vol = get_setting (POLICY_HI_VOL_ABS cfg) 1;
          thr_mixed_w = get_setting (POLICY_HI_WEIGHT_ABS_MIXED cfg) thr_w;
          w = max 0 (it_weight item);
          vol = max 0 (it_width item) * max 0 (it_length item) * max 0 (it_height item)
      in if mode md = Mode_weight then w \<ge> thr_w
         else if mode md = Mode_volume then vol \<ge> thr_vol
         else w \<ge> thr_mixed_w)"

definition evaluate_candidate_policy ::
  "Settings \<Rightarrow> Item \<Rightarrow> Candidate \<Rightarrow> Vehicle \<Rightarrow> ModeDecision \<Rightarrow> bool \<Rightarrow> PolicyDecision" where
  "evaluate_candidate_policy cfg item candidate vehicle md allow_hard_rules =
     (let z = c_z candidate;
          zone = zone_for_z z vehicle (zones_from_settings cfg);
          cls = item_class item (Some (innerWidth vehicle));
          hi = is_high_value cfg item md;
          W_HI_AB_BONUS = get_setting (POLICY_W_HI_AB_BONUS cfg) 2;
          W_HI_CD_PENALTY = get_setting (POLICY_W_HI_CD_PENALTY cfg) 3;
          W_LO_CD_BONUS = get_setting (POLICY_W_LO_CD_BONUS cfg) (5 / 10);
          W_LO_AB_PENALTY = get_setting (POLICY_W_LO_AB_PENALTY cfg) (5 / 10);
          V_BIG_ABC_BONUS = get_setting (POLICY_V_BIG_ABC_BONUS cfg) 1;
          V_BIG_D_PENALTY = get_setting (POLICY_V_BIG_D_PENALTY cfg) 2;
          V_SMALL_CD_BONUS = get_setting (POLICY_V_SMALL_CD_BONUS cfg) (5 / 10);
          BIG_FOOTPRINT_M2 = get_setting (POLICY_BIG_FOOTPRINT_M2 cfg) (16 / 10);
          M_HI_AB_BONUS = get_setting (POLICY_M_HI_AB_BONUS cfg) (15 / 10);
          M_LO_AB_PENALTY = get_setting (POLICY_M_LO_AB_PENALTY cfg) (5 / 10);
          OVERSIZE_BONUS = get_setting (POLICY_OVERSIZE_BONUS cfg) (8 / 10);
          BOX_AB_PENALTY = get_setting (POLICY_BOX_AB_PENALTY cfg) (7 / 10);
          BOX_CD_BONUS = get_setting (POLICY_BOX_CD_BONUS cfg) (15 / 10);
          HARD_OVERSIZE_IN_D = get_setting (POLICY_HARD_OVERSIZE_IN_D cfg) False;
          in_AB = (zone = ''A'' \<or> zone = ''B'');
          in_CD = (zone = ''C'' \<or> zone = ''D'');
          in_ABC = (zone = ''A'' \<or> zone = ''B'' \<or> zone = ''C'');
          (bonus1, penalty1) =
            (if mode md = Mode_weight then
               (if hi then (if in_AB then (W_HI_AB_BONUS, 0) else (0, W_HI_CD_PENALTY))
                else (if in_CD then (W_LO_CD_BONUS, 0) else (0, W_LO_AB_PENALTY)))
             else if mode md = Mode_volume then
               (let big_footprint = (it_width item * it_length item \<ge> BIG_FOOTPRINT_M2)
                in if big_footprint
                   then (if in_ABC then (V_BIG_ABC_BONUS, 0) else (0, V_BIG_D_PENALTY))
                   else (if in_CD then (V_SMALL_CD_BONUS, 0) else (0, 0)))
             else ((if hi \<and> in_AB then M_HI_AB_BONUS else 0),
                   (if (\<not> hi) \<and> in_AB then M_LO_AB_PENALTY else 0)));
          bonus2 = (if cls = ''oversize'' then bonus1 + OVERSIZE_BONUS else bonus1);
          (bonus3, penalty3) =
            (if cls = ''box''
             then (if in_AB then (bonus2, penalty1 + BOX_AB_PENALTY)
                   else (bonus2 + BOX_CD_BONUS, penalty1))
             else (bonus2, penalty1));
          hard = (if allow_hard_rules \<and> HARD_OVERSIZE_IN_D \<and> cls = ''oversize'' \<and> zone = ''D''
                  then [''oversize_in_D''] else [])
      in \<lparr>hard_reject_reasons = hard, zone_penalty = penalty3, zone_bonus = bonus3,
          tags = \<lparr>tag_zone = zone, tag_class = cls, tag_hi = (if hi then ''1'' else ''0''),
                  tag_mode = mode md\<rparr>\<rparr>)"

definition CLASS_PRIORITY_DEFAULT :: "string \<Rightarrow> int option" where
  "CLASS_PRIORITY_DEFAULT =
     map_of [(''oversize'', 0), (''standard'', 1), (''other'', 2), (''box'', 3)]"

definition sort_key_for_queue :: "Settings \<Rightarrow> Item \<Rightarrow> Vehicle \<Rightarrow> ModeDecision \<Rightarrow> int \<times> real" where
  "sort_key_for_queue cfg item vehicle md =
     (let cls = item_class item (Some (innerWidth vehicle));
          pr = (case POLICY_CLASS_PRIORITY cfg of
                  Some class_priority \<Rightarrow> (case class_priority cls of Some v \<Rightarrow> v | None \<Rightarrow> 99)
                | None \<Rightarrow> (case CLASS_PRIORITY_DEFAULT cls of Some v \<Rightarrow> v | None \<Rightarrow> 99));
          r = item_ratio item;
          w = max 0 (it_weight item);
          vol = max 0 (it_width item) * max 0 (it_length item) * max 0 (it_height item);
          k = (if mode md = Mode_weight then w * r
               else if mode md = Mode_volume then vol * r
               else (let al = (case alpha md of Some a \<Rightarrow> a | None \<Rightarrow> 1 / 2)
                     in al * (w * r) + (1 - al) * (vol * r)))
      in (pr, - k))"

section \<open>Plan state: the operations (catalogs/plan\_state.py)\<close>

text \<open>
  A lookup \<open>items_by_id[...]\<close> of an unknown identifier raises \<open>KeyError\<close>. Every
  operation that looks a unit up returns an \<open>option\<close>, \<open>None\<close> standing for the raised
  error.
\<close>

definition init_free_rects :: "PlanState \<Rightarrow> PlanState" where
  "init_free_rects state = state\<lparr>s_free_rects := init_for_vehicle (s_vehicle state)\<rparr>"

definition emit :: "PlanState \<Rightarrow> DebugEvent \<Rightarrow> PlanState" where
  "emit state ev = state\<lparr>s_debug := s_debug state @ [ev]\<rparr>"

definition can_place :: "PlanState \<Rightarrow> Candidate \<Rightarrow> (bool \<times> string list) option" where
  "can_place state cand =
     (case check_oob cand (s_vehicle state) of
        (False, r) \<Rightarrow> Some (False, r)
      | (True, _) \<Rightarrow>
        (case check_collision cand (s_placed state) of
           (False, r) \<Rightarrow> Some (False, r)
         | (True, _) \<Rightarrow>
           (case s_items_by_id state (c_itemId cand) of
              None \<Rightarrow> None
            | Some item \<Rightarrow>
                (let tmp_placed = s_placed state @ [placed_from_candidate cand item];
                     lds = compute_loads tmp_placed (s_vehicle state)
                 in case check_loads lds (s_vehicle state) of
                      (False, r) \<Rightarrow> Some (False, r)
                    | (True, _) \<Rightarrow> Some (True, [])))))"

definition commit :: "PlanState \<Rightarrow> Candidate \<Rightarrow> PlanState option" where
  "commit state cand =
     (case s_items_by_id state (c_itemId cand) of
        None \<Rightarrow> None
      | Some item \<Rightarrow>
          (let p = placed_from_candidate cand item;
               state1 = state\<lparr>s_placed := s_placed state @ [p]\<rparr>;
               used = (minX (c_aabb cand), maxX (c_aabb cand), minZ (c_aabb cand), maxZ (c_aabb cand));
               state2 = state1\<lparr>s_free_rects := reserve (s_free_rects state1) used\<rparr>
           in Some (state2\<lparr>s_loads := Some (compute_loads (s_placed state2) (s_vehicle state2))\<rparr>)))"

definition snapshot :: "PlanState \<Rightarrow> PlanResult" where
  "snapshot state =
     \<lparr>r_taskId = s_task_id state, r_transportType = s_transport_type state,
      r_vehicle = s_vehicle state, r_mode = s_mode state, r_placed = s_placed state,
      r_unplaced = s_unplaced state, r_loads = s_loads state, r_debug = s_debug state\<rparr>"

section \<open>Scorer (scoring/objective.py)\<close>

definition score_candidate ::
  "PlanState \<Rightarrow> Candidate \<Rightarrow> ModeDecision \<Rightarrow> (int \<times> real \<times> real \<times> real) option" where
  "score_candidate state candidate md =
     (case s_items_by_id state (c_itemId candidate) of
        None \<Rightarrow> None
      | Some item \<Rightarrow>
          (let k = compute_k item md;
               used_area = c_dx candidate * c_dz candidate
           in Some (1, k, used_area, 0)))"

section \<open>Packer loop (solver/packer.py)\<close>

text \<open>
  The dictionary of \<open>_group_pattern_candidates\<close> keeps its keys in insertion order; it
  is an association list here.
\<close>

fun group_insert ::
  "PatternId \<Rightarrow> Candidate \<Rightarrow> (PatternId \<times> Candidate list) list \<Rightarrow> (PatternId \<times> Candidate list) list" where
  "group_insert pid c [] = [(pid, [c])]"
| "group_insert pid c (e # rest) =
     (if fst e = pid then (fst e, snd e @ [c]) # rest else e # group_insert pid c rest)"

definition group_pattern_candidates :: "Candidate list \<Rightarrow> (PatternId \<times> Candidate list) list" where
  "group_pattern_candidates cands =
     fold (\<lambda>c groups. case m_patternId (c_meta c) of
                         None \<Rightarrow> groups
                       | Some pid \<Rightarrow> group_insert pid c groups) cands []"

text \<open>
  Step 1 of \<open>_can_commit_group\<close>: member \<open>i\<close> against every earlier member \<open>j < i\<close>.
\<close>

fun internal_collision :: "Candidate list \<Rightarrow> Candidate list \<Rightarrow> bool" where
  "internal_collision earlier [] = False"
| "internal_collision earlier (c # rest) =
     (if list_ex (\<lambda>d. aabb_intersects (c_aabb c) (c_aabb d) default_eps) earlier then True
      else internal_collision (earlier @ [c]) rest)"

text \<open>Step 2: the first member that is out of bounds or collides, if any.\<close>

fun group_gates :: "PlanState \<Rightarrow> Candidate list \<Rightarrow> string list option" where
  "group_gates state [] = None"
| "group_gates state (c # rest) =
     (case check_oob c (s_vehicle state) of
        (False, r) \<Rightarrow> Some r
      | (True, _) \<Rightarrow>
        (case check_collision c (s_placed state) of
           (False, r) \<Rightarrow> Some r
         | (True, _) \<Rightarrow> group_gates state rest))"

text \<open>Step 3 builds the tentative placed list; a lookup may raise.\<close>

fun group_placed :: "PlanState \<Rightarrow> Candidate list \<Rightarrow> PlacedItem list option" where
  "group_placed state [] = Some []"
| "group_placed state (c # rest) =
     (case s_items_by_id state (c_itemId c) of
        None \<Rightarrow> None
      | Some it \<Rightarrow> (case group_placed state rest of
                      None \<Rightarrow> None
                    | Some ps \<Rightarrow> Some (placed_from_candidate c it # ps)))"

definition can_commit_group :: "PlanState \<Rightarrow> Candidate list \<Rightarrow> (bool \<times> string list) option" where
  "can_commit_group state grp =
     (if internal_collision [] grp then Some (False, [''pattern_internal_collision''])
      else (case group_gates state grp of
              Some r \<Rightarrow> Some (False, r)
            | None \<Rightarrow>
              (case group_placed state grp of
                 None \<Rightarrow> None
               | Some ps \<Rightarrow>
                   (let tmp_placed = s_placed state @ ps;
                        lds = compute_loads tmp_placed (s_vehicle state)
                    in case check_loads lds (s_vehicle state) of
                         (False, r) \<Rightarrow> Some (False, r)
                       | (True, _) \<Rightarrow> Some (True, [])))))"

definition apply_policy_to_score ::
  "Settings \<Rightarrow> int \<times> real \<times> real \<times> real \<Rightarrow> PolicyDecision \<Rightarrow> int \<times> real \<times> real \<times> real" where
  "apply_policy_to_score cfg sc pol =
     (case sc of (sc0, sc1, sc2, sc3) \<Rightarrow>
        (let w = get_setting (POLICY_SCORE_WEIGHT cfg) 1;
             term = w * (zone_bonus pol - zone_penalty pol)
         in (sc0, sc1, sc2, sc3 + term)))"

text \<open>\<open>_packing_quality\<close>, without the debug dictionary it returns next to the quality.\<close>

definition packing_quality :: "Settings \<Rightarrow> Candidate list \<Rightarrow> real" where
  "packing_quality cfg grp =
     (case grp of
        [] \<Rightarrow> 0
      | c0 # _ \<Rightarrow>
        (let used = sum_list (map (\<lambda>c. c_dx c * c_dz c) grp);
             gminX = fold (\<lambda>c m. min m (minX (c_aabb c))) grp (10 ^ 18);
             gmaxX = fold (\<lambda>c m. max m (maxX (c_aabb c))) grp (- (10 ^ 18));
             gminZ = fold (\<lambda>c m. min m (minZ (c_aabb c))) grp (10 ^ 18);
             gmaxZ = fold (\<lambda>c m. max m (maxZ (c_aabb c))) grp (- (10 ^ 18));
             bbox_w = max 0 (gmaxX - gminX);
             bbox_l = max 0 (gmaxZ - gminZ);
             bbox_area = bbox_w * bbox_l;
             density = (if bbox_area > 1 / 10 ^ 9 then used / bbox_area else 0);
             (slack, touch) =
               (case m_rect (c_meta c0) of
                  None \<Rightarrow> (0, 0)
                | Some rect \<Rightarrow>
                    (case rect of (rminX, rmaxX, rminZ, rmaxZ) \<Rightarrow>
                       (let left_gap = max 0 (gminX - rminX);
                            right_gap = max 0 (rmaxX - gmaxX);
                            front_gap = max 0 (gminZ - rminZ);
                            back_gap = max 0 (rmaxZ - gmaxZ);
                            eps = 1 / 10 ^ 3;
                            t = (if left_gap \<le> eps then 1 else 0) + (if right_gap \<le> eps then 1 else 0)
                              + (if front_gap \<le> eps then 1 else 0) + (if back_gap \<le> eps then 1 else 0)
                        in (left_gap + right_gap + front_gap + back_gap, t))));
             DENSITY_W = get_setting (PACK_DENSITY_W cfg) 10;
             TOUCH_W = get_setting (PACK_TOUCH_W cfg) (6 / 10);
             SLACK_W = get_setting (PACK_SLACK_W cfg) (15 / 10)
         in (DENSITY_W * density) + (TOUCH_W * touch) - (SLACK_W * slack)))"

text \<open>
  The policy loop over the members of a group that passed \<open>_can_commit_group\<close>. The
  outer \<open>None\<close> is a raised \<open>KeyError\<close>, the inner \<open>None\<close> a hard policy reject.
\<close>

fun group_policies :: "Settings \<Rightarrow> PlanState \<Rightarrow> Candidate list \<Rightarrow> PolicyDecision list option option" where
  "group_policies cfg state [] = Some (Some [])"
| "group_policies cfg state (c # rest) =
     (case s_items_by_id state (c_itemId c) of
        None \<Rightarrow> None
      | Some it \<Rightarrow>
          (let pol = evaluate_candidate_policy cfg it c (s_vehicle state) (s_mode state) False
           in if hard_reject_reasons pol \<noteq> [] then Some None
              else (case group_policies cfg state rest of
                      None \<Rightarrow> None
                    | Some None \<Rightarrow> Some None
                    | Some (Some pols) \<Rightarrow> Some (Some (pol # pols)))))"

text \<open>
  The sums \<open>(k_sum, used_area_sum, policy_sum)\<close> over the members of a group and their
  policy decisions.
\<close>

fun group_sums ::
  "Settings \<Rightarrow> PlanState \<Rightarrow> Candidate list \<Rightarrow> PolicyDecision list \<Rightarrow> (real \<times> real \<times> real) option" where
  "group_sums cfg state (c # cs) (pol # pols) =
     (case score_candidate state c (s_mode state) of
        None \<Rightarrow> None
      | Some sc \<Rightarrow>
          (case group_sums cfg state cs pols of
             None \<Rightarrow> None
           | Some tot \<Rightarrow>
               (let sc2 = apply_policy_to_score cfg sc pol
                in Some (fst (snd sc2) + fst tot,
                         fst (snd (snd sc2)) + fst (snd tot),
                         snd (snd (snd sc2)) + snd (snd tot)))))"
| "group_sums cfg state cs pols = Some (0, 0, 0)"

text \<open>
  The verdict on one pattern group: \<open>None\<close> is a raised \<open>KeyError\<close>, \<open>Some None\<close> a
  rejected group (the loop's \<open>continue\<close>), \<open>Some (Some score)\<close> a feasible group with
  its score \<open>(1, quality, used_area_sum, policy_sum, k_sum)\<close>.
\<close>

definition eval_pattern_group ::
  "Settings \<Rightarrow> PlanState \<Rightarrow> Item list \<Rightarrow> Candidate list
     \<Rightarrow> (int \<times> real \<times> real \<times> real \<times> real) option option" where
  "eval_pattern_group cfg state remaining grp =
     (let rem_ids = set (map it_id remaining) in
      if list_ex (\<lambda>c. c_itemId c \<notin> rem_ids) grp then Some None
      else (case can_commit_group state grp of
              None \<Rightarrow> None
            | Some (False, reasons) \<Rightarrow> Some None
            | Some (True, _) \<Rightarrow>
              (case group_policies cfg state grp of
                 None \<Rightarrow> None
               | Some None \<Rightarrow> Some None
               | Some (Some group_pol_terms) \<Rightarrow>
                 (case group_sums cfg state grp group_pol_terms of
                    None \<Rightarrow> None
                  | Some tot \<Rightarrow>
                      (let k_sum = fst tot;
                           used_area_sum = fst (snd tot);
                           policy_sum = snd (snd tot);
                           quality = packing_quality cfg grp
                       in Some (Some (1, quality, used_area_sum, policy_sum, k_sum)))))))"

text \<open>
  The loop over the pattern groups; \<open>best\<close> is \<open>(best_pat_score, best_pat_pid,
  best_pat_group)\<close>.
\<close>

fun scan_patterns ::
  "Settings \<Rightarrow> PlanState \<Rightarrow> Item list \<Rightarrow> (PatternId \<times> Candidate list) list
     \<Rightarrow> ((int \<times> real \<times> real \<times> real \<times> real) \<times> PatternId \<times> Candidate list) option
     \<Rightarrow> ((int \<times> real \<times> real \<times> real \<times> real) \<times> PatternId \<times> Candidate list) option option" where
  "scan_patterns cfg state remaining [] best = Some best"
| "scan_patterns cfg state remaining (e # rest) best =
     (case eval_pattern_group cfg state remaining (snd e) of
        None \<Rightarrow> None
      | Some None \<Rightarrow> scan_patterns cfg state remaining rest best
      | Some (Some pat_score) \<Rightarrow>
          scan_patterns cfg state remaining rest
            (case best of
               None \<Rightarrow> Some (pat_score, fst e, snd e)
             | Some b \<Rightarrow> if pat_score > fst b then Some (pat_score, fst e, snd e) else Some b))"

text \<open>
  The verdict on one single candidate, as \<open>eval_pattern_group\<close> for a group; a feasible
  candidate comes with its score \<open>(1, K, used_area, policy_term)\<close>.
\<close>

definition eval_single ::
  "Settings \<Rightarrow> PlanState \<Rightarrow> Candidate \<Rightarrow> (int \<times> real \<times> real \<times> real) option option" where
  "eval_single cfg state cand =
     (case can_place state cand of
        None \<Rightarrow> None
      | Some (False, reasons) \<Rightarrow> Some None
      | Some (True, _) \<Rightarrow>
        (case s_items_by_id state (c_itemId cand) of
           None \<Rightarrow> None
         | Some it \<Rightarrow>
             (let pol = evaluate_candidate_policy cfg it cand (s_vehicle state) (s_mode state) False
              in if hard_reject_reasons pol \<noteq> [] then Some None
                 else (case score_candidate state cand (s_mode state) of
                         None \<Rightarrow> None
                       | Some sc \<Rightarrow> Some (Some (apply_policy_to_score cfg sc pol))))))"

fun scan_singles ::
  "Settings \<Rightarrow> PlanState \<Rightarrow> Candidate list \<Rightarrow> ((int \<times> real \<times> real \<times> real) \<times> Candidate) option
     \<Rightarrow> ((int \<times> real \<times> real \<times> real) \<times> Candidate) option option" where
  "scan_singles cfg state [] best = Some best"
| "scan_singles cfg state (cand # rest) best =
     (if m_patternId (c_meta cand) \<noteq> None then scan_singles cfg state rest best
      else (case eval_single cfg state cand of
              None \<Rightarrow> None
            | Some None \<Rightarrow> scan_singles cfg state rest best
            | Some (Some sc) \<Rightarrow>
                scan_singles cfg state rest
                  (case best of
                     None \<Rightarrow> Some (sc, cand)
                   | Some b \<Rightarrow> if sc > fst b then Some (sc, cand) else Some b)))"

fun commit_all :: "PlanState \<Rightarrow> Candidate list \<Rightarrow> PlanState option" where
  "commit_all state [] = Some state"
| "commit_all state (c # cs) =
     (case commit state c of
        None \<Rightarrow> None
      | Some state' \<Rightarrow> commit_all state' cs)"

text \<open>The slice \<open>remaining[:SETTINGS.TOP_N_WINDOW]\<close>, for an integer of either sign.\<close>

definition window_of :: "Settings \<Rightarrow> Item list \<Rightarrow> Item list" where
  "window_of cfg remaining =
     (let n = TOP_N_WINDOW cfg in
      if n \<ge> 0 then take (nat n) remaining
      else take (nat (int (length remaining) + n)) remaining)"

text \<open>
  The candidates of one iteration, and the two events the iteration records before it
  decides: \<open>candidates_generated\<close>, and \<open>pattern_reject_summary\<close> when there is a
  pattern group.
\<close>

definition iteration_candidates :: "Settings \<Rightarrow> PlanState \<Rightarrow> Item list \<Rightarrow> Candidate list" where
  "iteration_candidates cfg state remaining =
     (let window = window_of cfg remaining
      in generate_floor_candidates state window)"

definition emit_candidates_generated :: "Settings \<Rightarrow> PlanState \<Rightarrow> Item list \<Rightarrow> PlanState" where
  "emit_candidates_generated cfg state remaining =
     (let window = window_of cfg remaining;
          candidates = iteration_candidates cfg state remaining;
          pattern_groups = group_pattern_candidates candidates;
          pat_count = length (filter (\<lambda>c. m_patternId (c_meta c) \<noteq> None) candidates);
          single_count = length (filter (\<lambda>c. m_patternId (c_meta c) = None) candidates)
      in emit state (Ev_candidates_generated (length candidates) (length window)
                       single_count pat_count (length pattern_groups)))"

definition emit_reject_summary :: "PlanState \<Rightarrow> (PatternId \<times> Candidate list) list \<Rightarrow> PlanState" where
  "emit_reject_summary state pattern_groups =
     (if pattern_groups \<noteq> [] then emit state (Ev_pattern_reject_summary (length pattern_groups))
      else state)"

text \<open>
  Part 3 of the loop body, the choice: a feasible pattern group wins; otherwise the best
  single candidate is taken; with neither the loop gives up.
\<close>

datatype Choice =
    Choose_exhausted
  | Choose_pattern PatternId "Candidate list"
  | Choose_single Candidate

definition decide ::
  "((int \<times> real \<times> real \<times> real \<times> real) \<times> PatternId \<times> Candidate list) option
     \<Rightarrow> ((int \<times> real \<times> real \<times> real) \<times> Candidate) option \<Rightarrow> Choice" where
  "decide best_pat best_single =
     (case best_pat of
        Some bp \<Rightarrow> Choose_pattern (fst (snd bp)) (snd (snd bp))
      | None \<Rightarrow> (case best_single of
                   None \<Rightarrow> Choose_exhausted
                 | Some bs \<Rightarrow> Choose_single (snd bs)))"

text \<open>
  Carrying the choice out. The result is \<open>None\<close> when a lookup raises; otherwise it is
  the new state together with \<open>None\<close> when the loop stops (\<open>break\<close>) or with the new
  queue when it goes on.
\<close>

fun apply_choice :: "PlanState \<Rightarrow> Item list \<Rightarrow> Choice \<Rightarrow> (PlanState \<times> Item list option) option" where
  "apply_choice state remaining Choose_exhausted =
     (let state1 = state\<lparr>s_unplaced := s_unplaced state
             @ map (\<lambda>it. it\<lparr>it_status := Status_unplaced\<rparr>) remaining\<rparr>;
          state2 = emit state1 (Ev_unplaced_all_remaining (length remaining))
      in Some (state2, None))"
| "apply_choice state remaining (Choose_pattern best_pat_pid best_pat_group) =
     (case commit_all state best_pat_group of
        None \<Rightarrow> None
      | Some state1 \<Rightarrow>
          (let committed_ids = map c_itemId best_pat_group;
               state2 = emit state1
                 (Ev_pattern_committed (Some best_pat_pid) (length best_pat_group) committed_ids)
           in Some (state2, Some (filter (\<lambda>it. it_id it \<notin> set committed_ids) remaining))))"
| "apply_choice state remaining (Choose_single best_single) =
     (case commit state best_single of
        None \<Rightarrow> None
      | Some state1 \<Rightarrow>
          (let state2 = emit state1
                 (Ev_candidate_chosen (c_itemId best_single) (c_kind best_single))
           in Some (state2, Some (filter (\<lambda>it. it_id it \<noteq> c_itemId best_single) remaining))))"

text \<open>
  One iteration of the \<open>while remaining\<close> loop. The local variables \<open>vehicle\<close> and
  \<open>mode\<close> of \<open>pack\<close> are the fields of the state that \<open>pack\<close> created from them.
\<close>

definition pack_iteration ::
  "Settings \<Rightarrow> PlanState \<Rightarrow> Item list \<Rightarrow> (PlanState \<times> Item list option) option" where
  "pack_iteration cfg state remaining =
     (let candidates = iteration_candidates cfg state remaining;
          pattern_groups = group_pattern_candidates candidates;
          state1 = emit_candidates_generated cfg state remaining
      in case scan_patterns cfg state1 remaining pattern_groups None of
           None \<Rightarrow> None
         | Some best_pat \<Rightarrow>
           (let state2 = emit_reject_summary state1 pattern_groups
            in case scan_singles cfg state2 candidates None of
                 None \<Rightarrow> None
               | Some best_single \<Rightarrow> apply_choice state2 remaining (decide best_pat best_single)))"

subsection \<open>Every iteration that goes on shortens the queue\<close>

lemma set_window_of: "set (window_of cfg remaining) \<subseteq> set remaining"
  by (auto simp: window_of_def Let_def dest: in_set_takeD)

lemma single_candidates_itemId:
  "c \<in> set (single_candidates rs it) \<Longrightarrow> c_itemId c = it_id it \<and> m_patternId (c_meta c) = None"
  by (auto simp: single_candidates_def Let_def empty_meta_def split: if_splits prod.splits)

lemma assign_pattern_id_meta:
  "c \<in> set (assign_pattern_id pack pid) \<Longrightarrow> m_patternId (c_meta c) = Some pid"
  by (auto simp: assign_pattern_id_def)

lemma generate_single_itemId:
  assumes "c \<in> set (generate_floor_candidates state window)" "m_patternId (c_meta c) = None"
  shows "c_itemId c \<in> it_id ` set window"
proof -
  from assms have "c \<in> set (concat (map (single_candidates
       (take 250 (sort_key (\<lambda>r. - rect_area r) (fr_rects (s_free_rects state))))) window))"
    by (auto simp: generate_floor_candidates_def Let_def dest: assign_pattern_id_meta)
  then show ?thesis
    by (auto dest: single_candidates_itemId)
qed

lemma group_insert_props:
  "(pid, g) \<in> set (group_insert q c groups) \<Longrightarrow>
     (pid, g) \<in> set groups \<or> (pid = q \<and> (g = [c] \<or> (\<exists>g0. (pid, g0) \<in> set groups \<and> g = g0 @ [c])))"
  by (induction groups) (auto split: if_splits)

lemma fold_group_nonempty:
  "(pid, g) \<in> set (fold (\<lambda>c groups. case m_patternId (c_meta c) of
                         None \<Rightarrow> groups
                       | Some pid \<Rightarrow> group_insert pid c groups) cands acc)
   \<Longrightarrow> \<forall>(q, h) \<in> set acc. h \<noteq> [] \<Longrightarrow> g \<noteq> []"
proof (induction cands arbitrary: acc)
  case Nil
  then show ?case by auto
next
  case (Cons c cands)
  show ?case
  proof (cases "m_patternId (c_meta c)")
    case None
    with Cons show ?thesis by simp
  next
    case (Some q)
    have "\<forall>(q', h) \<in> set (group_insert q c acc). h \<noteq> []"
      using Cons.prems(2) by (auto dest!: group_insert_props)
    with Cons.IH [of "group_insert q c acc"] Cons.prems(1) Some show ?thesis by simp
  qed
qed

lemma group_pattern_candidates_nonempty:
  "(pid, g) \<in> set (group_pattern_candidates cands) \<Longrightarrow> g \<noteq> []"
  unfolding group_pattern_candidates_def by (erule fold_group_nonempty) simp

lemma scan_singles_result:
  "scan_singles cfg state cands best = Some (Some b) \<Longrightarrow>
     best = Some b \<or> (snd b \<in> set cands \<and> m_patternId (c_meta (snd b)) = None
                      \<and> eval_single cfg state (snd b) = Some (Some (fst b)))"
proof (induction cands arbitrary: best)
  case Nil
  then show ?case by simp
next
  case (Cons cand rest)
  show ?case
  proof (cases "m_patternId (c_meta cand) \<noteq> None")
    case True
    with Cons show ?thesis by auto
  next
    case False
    then have np: "m_patternId (c_meta cand) = None" by simp
    show ?thesis
    proof (cases "eval_single cfg state cand")
      case None
      with Cons.prems np show ?thesis by simp
    next
      case (Some v)
      show ?thesis
      proof (cases v)
        case None
        with Cons Some np show ?thesis by auto
      next
        case (Some sc)
        with \<open>eval_single cfg state cand = Some v\<close> Cons.prems np
        have "scan_singles cfg state rest
                (case best of None \<Rightarrow> Some (sc, cand)
                 | Some b \<Rightarrow> if sc > fst b then Some (sc, cand) else Some b) = Some (Some b)"
          by simp
        from Cons.IH [OF this] Some \<open>eval_single cfg state cand = Some v\<close> np
        show ?thesis by (auto split: option.splits if_splits)
      qed
    qed
  qed
qed

lemma scan_patterns_result:
  "scan_patterns cfg state remaining groups best = Some (Some b) \<Longrightarrow>
     best = Some b \<or> (snd b \<in> set groups
                      \<and> eval_pattern_group cfg state remaining (snd (snd b)) = Some (Some (fst b)))"
proof (induction groups arbitrary: best)
  case Nil
  then show ?case by simp
next
  case (Cons e rest)
  show ?case
  proof (cases "eval_pattern_group cfg state remaining (snd e)")
    case None
    with Cons.prems show ?thesis by simp
  next
    case (Some v)
    show ?thesis
    proof (cases v)
      case None
      with Cons Some show ?thesis by auto
    next
      case (Some sc)
      with \<open>eval_pattern_group cfg state remaining (snd e) = Some v\<close> Cons.prems
      have "scan_patterns cfg state remaining rest
              (case best of None \<Rightarrow> Some (sc, fst e, snd e)
               | Some b \<Rightarrow> if sc > fst b then Some (sc, fst e, snd e) else Some b) = Some (Some b)"
        by simp
      from Cons.IH [OF this] Some \<open>eval_pattern_group cfg state remaining (snd e) = Some v\<close>
      show ?thesis by (auto split: option.splits if_splits)
    qed
  qed
qed

lemma eval_pattern_group_feasible:
  "eval_pattern_group cfg state remaining grp = Some (Some sc) \<Longrightarrow>
     (\<forall>c \<in> set grp. c_itemId c \<in> it_id ` set remaining)
     \<and> (\<exists>r. can_commit_group state grp = Some (True, r))"
  by (auto simp: eval_pattern_group_def Let_def list_ex_iff split: if_splits option.splits bool.splits)

lemma filter_shrinks:
  "x \<in> set xs \<Longrightarrow> \<not> Q x \<Longrightarrow> length (filter Q xs) < length xs"
  by (induction xs) (auto simp: less_Suc_eq_le)

lemma pack_iteration_SomeD:
  assumes "pack_iteration cfg state remaining = Some res"
  obtains best_pat best_single where
    "scan_patterns cfg (emit_candidates_generated cfg state remaining) remaining
        (group_pattern_candidates (iteration_candidates cfg state remaining)) None = Some best_pat"
    "scan_singles cfg (emit_reject_summary (emit_candidates_generated cfg state remaining)
           (group_pattern_candidates (iteration_candidates cfg state remaining)))
        (iteration_candidates cfg state remaining) None = Some best_single"
    "apply_choice (emit_reject_summary (emit_candidates_generated cfg state remaining)
           (group_pattern_candidates (iteration_candidates cfg state remaining)))
        remaining (decide best_pat best_single) = Some res"
  using assms by (auto simp: pack_iteration_def Let_def split: option.splits)

lemma iteration_single_itemId:
  assumes "c \<in> set (iteration_candidates cfg state remaining)" "m_patternId (c_meta c) = None"
  shows "c_itemId c \<in> it_id ` set remaining"
  using generate_single_itemId [of c state "window_of cfg remaining"] assms set_window_of [of cfg remaining]
  by (auto simp: iteration_candidates_def)

lemma apply_choice_pattern_remaining:
  "apply_choice state remaining (Choose_pattern pid grp) = Some (state', Some remaining')
   \<Longrightarrow> remaining' = filter (\<lambda>it. it_id it \<notin> set (map c_itemId grp)) remaining"
  by (auto simp add: Let_def split: option.splits)

lemma apply_choice_single_remaining:
  "apply_choice state remaining (Choose_single c) = Some (state', Some remaining')
   \<Longrightarrow> remaining' = filter (\<lambda>it. it_id it \<noteq> c_itemId c) remaining"
  by (auto simp add: Let_def split: option.splits)

lemma apply_choice_exhausted_stop:
  "apply_choice state remaining Choose_exhausted \<noteq> Some (state', Some remaining')"
  by (simp add: Let_def)

lemma pack_iteration_shrinks:
  assumes "pack_iteration cfg state remaining = Some (state', Some remaining')"
  shows "length remaining' < length remaining"
proof -
  let ?cands = "iteration_candidates cfg state remaining"
  let ?groups = "group_pattern_candidates ?cands"
  let ?st1 = "emit_candidates_generated cfg state remaining"
  let ?st2 = "emit_reject_summary ?st1 ?groups"
  from assms show ?thesis
  proof (rule pack_iteration_SomeD)
    fix best_pat best_single
    assume bp: "scan_patterns cfg ?st1 remaining ?groups None = Some best_pat"
      and bs: "scan_singles cfg ?st2 ?cands None = Some best_single"
      and ap: "apply_choice ?st2 remaining (decide best_pat best_single)
                 = Some (state', Some remaining')"
    show ?thesis
    proof (cases best_pat)
      case (Some b)
      from scan_patterns_result [OF bp [unfolded Some]]
      have mem: "snd b \<in> set ?groups"
        and ev: "eval_pattern_group cfg ?st1 remaining (snd (snd b)) = Some (Some (fst b))"
        by simp_all
      have "(fst (snd b), snd (snd b)) \<in> set ?groups" using mem by simp
      then have ne: "snd (snd b) \<noteq> []"
        by (rule group_pattern_candidates_nonempty)
      then obtain c where c: "c \<in> set (snd (snd b))" by (cases "snd (snd b)") auto
      from eval_pattern_group_feasible [OF ev] c
      have "c_itemId c \<in> it_id ` set remaining" by blast
      then obtain it where it: "it \<in> set remaining" "it_id it = c_itemId c" by auto
      have "decide best_pat best_single = Choose_pattern (fst (snd b)) (snd (snd b))"
        using Some by (simp add: decide_def)
      with ap have
        r: "remaining' = filter (\<lambda>it. it_id it \<notin> set (map c_itemId (snd (snd b)))) remaining"
        using apply_choice_pattern_remaining by simp
      have "\<not> (it_id it \<notin> set (map c_itemId (snd (snd b))))"
        using it c by simp
      from filter_shrinks [of it remaining "\<lambda>it. it_id it \<notin> set (map c_itemId (snd (snd b)))",
          OF it(1) this] r
      show ?thesis by simp
    next
      case None
      show ?thesis
      proof (cases best_single)
        case n: None
        with None have "decide best_pat best_single = Choose_exhausted"
          by (simp add: decide_def)
        with ap apply_choice_exhausted_stop show ?thesis by simp
      next
        case (Some b)
        with None have "decide best_pat best_single = Choose_single (snd b)"
          by (simp add: decide_def)
        with ap have r: "remaining' = filter (\<lambda>it. it_id it \<noteq> c_itemId (snd b)) remaining"
          using apply_choice_single_remaining by simp
        from scan_singles_result [OF bs [unfolded Some]]
        have "snd b \<in> set ?cands" "m_patternId (c_meta (snd b)) = None"
          by simp_all
        then have "c_itemId (snd b) \<in> it_id ` set remaining"
          by (rule iteration_single_itemId)
        then obtain it where it: "it \<in> set remaining" "it_id it = c_itemId (snd b)"
          by auto
        have "\<not> (it_id it \<noteq> c_itemId (snd b))" using it by simp
        from filter_shrinks [of it remaining "\<lambda>it. it_id it \<noteq> c_itemId (snd b)", OF it(1) this] r
        show ?thesis by simp
      qed
    qed
  qed
qed

text \<open>
  The \<open>while remaining\<close> loop. It terminates because every iteration that goes on has
  shortened the queue.
\<close>

function pack_loop :: "Settings \<Rightarrow> PlanState \<Rightarrow> Item list \<Rightarrow> PlanState option" where
  "pack_loop cfg state remaining =
     (if remaining = [] then Some state
      else (case pack_iteration cfg state remaining of
              None \<Rightarrow> None
            | Some (state', None) \<Rightarrow> Some state'
            | Some (state', Some remaining') \<Rightarrow> pack_loop cfg state' remaining'))"
  by pat_completeness auto
termination
  by (relation "measure (\<lambda>(cfg, state, remaining). length remaining)")
     (auto dest: pack_iteration_shrinks)

definition pack :: "Settings \<Rightarrow> Item list \<Rightarrow> Vehicle \<Rightarrow> string \<Rightarrow> string \<Rightarrow> PlanResult option" where
  "pack cfg items vehicle task_id transport_type =
     (let md = detect_mode cfg items vehicle;
          state = \<lparr>s_task_id = task_id, s_transport_type = transport_type, s_vehicle = vehicle,
                   s_mode = md, s_debug = [], s_items_by_id = Map.empty, s_placed = [],
                   s_unplaced = [], s_free_rects = \<lparr>fr_rects = []\<rparr>, s_loads = None\<rparr>;
          state = init_free_rects state;
          state = state\<lparr>s_items_by_id := map_of (rev (map (\<lambda>it. (it_id it, it)) items))\<rparr>;
          state = emit state (Ev_mode_detected md);
          remaining = sort_key (\<lambda>it. sort_key_for_queue cfg it vehicle md) items
      in map_option snapshot (pack_loop cfg state remaining))"

section \<open>Reasoning about the packer loop\<close>

subsection \<open>The debug trail is write-only\<close>

lemma can_place_debug [simp]: "can_place (state\<lparr>s_debug := d\<rparr>) c = can_place state c"
  by (simp add: can_place_def cong: option.case_cong prod.case_cong bool.case_cong)

lemma group_gates_debug [simp]: "group_gates (state\<lparr>s_debug := d\<rparr>) grp = group_gates state grp"
  by (induction grp) (simp_all cong: option.case_cong prod.case_cong bool.case_cong)

lemma group_placed_debug [simp]: "group_placed (state\<lparr>s_debug := d\<rparr>) grp = group_placed state grp"
  by (induction grp) (simp_all add: Let_def cong: option.case_cong if_cong)

lemma can_commit_group_debug [simp]:
  "can_commit_group (state\<lparr>s_debug := d\<rparr>) grp = can_commit_group state grp"
  by (simp add: can_commit_group_def cong: option.case_cong prod.case_cong bool.case_cong)

lemma score_candidate_debug [simp]:
  "score_candidate (state\<lparr>s_debug := d\<rparr>) c md = score_candidate state c md"
  by (simp add: score_candidate_def)

lemma group_policies_debug [simp]:
  "group_policies cfg (state\<lparr>s_debug := d\<rparr>) grp = group_policies cfg state grp"
  by (induction grp) (simp_all add: Let_def cong: option.case_cong if_cong)

lemma group_sums_debug [simp]:
  "group_sums cfg (state\<lparr>s_debug := d\<rparr>) grp pols = group_sums cfg state grp pols"
  by (induction cfg state grp pols rule: group_sums.induct) (simp_all add: Let_def cong: option.case_cong if_cong)

lemma eval_pattern_group_debug [simp]:
  "eval_pattern_group cfg (state\<lparr>s_debug := d\<rparr>) remaining grp
     = eval_pattern_group cfg state remaining grp"
  by (simp add: eval_pattern_group_def Let_def cong: option.case_cong prod.case_cong bool.case_cong if_cong)

lemma eval_single_debug [simp]:
  "eval_single cfg (state\<lparr>s_debug := d\<rparr>) c = eval_single cfg state c"
  by (simp add: eval_single_def Let_def cong: option.case_cong prod.case_cong bool.case_cong if_cong)

lemma scan_patterns_debug [simp]:
  "scan_patterns cfg (state\<lparr>s_debug := d\<rparr>) remaining groups best
     = scan_patterns cfg state remaining groups best"
  by (induction groups arbitrary: best) (simp_all add: Let_def cong: option.case_cong if_cong)

lemma scan_singles_debug [simp]:
  "scan_singles cfg (state\<lparr>s_debug := d\<rparr>) cands best = scan_singles cfg state cands best"
  by (induction cands arbitrary: best) (simp_all add: Let_def cong: option.case_cong if_cong)

lemma emit_candidates_generated_eq:
  "\<exists>d. emit_candidates_generated cfg state remaining = state\<lparr>s_debug := d\<rparr>"
  by (auto simp: emit_candidates_generated_def emit_def Let_def)

lemma emit_reject_summary_eq:
  "\<exists>d. emit_reject_summary (state\<lparr>s_debug := d0\<rparr>) groups = state\<lparr>s_debug := d\<rparr>"
  by (auto simp: emit_reject_summary_def emit_def)

text \<open>What an iteration computes, with the scans read on the state the iteration starts from.\<close>

lemma pack_iteration_cases:
  assumes "pack_iteration cfg state remaining = Some res"
  obtains best_pat best_single d where
    "scan_patterns cfg state remaining
        (group_pattern_candidates (iteration_candidates cfg state remaining)) None = Some best_pat"
    "scan_singles cfg state (iteration_candidates cfg state remaining) None = Some best_single"
    "apply_choice (state\<lparr>s_debug := d\<rparr>) remaining (decide best_pat best_single) = Some res"
proof -
  obtain d1 where d1: "emit_candidates_generated cfg state remaining = state\<lparr>s_debug := d1\<rparr>"
    using emit_candidates_generated_eq by blast
  obtain d2 where d2: "emit_reject_summary (state\<lparr>s_debug := d1\<rparr>)
      (group_pattern_candidates (iteration_candidates cfg state remaining)) = state\<lparr>s_debug := d2\<rparr>"
    using emit_reject_summary_eq by blast
  from assms show ?thesis
    by (rule pack_iteration_SomeD) (use d1 d2 that in simp)
qed

subsection \<open>Effect of a commit\<close>

lemma commit_SomeD:
  assumes "commit state c = Some state'"
  obtains it where "s_items_by_id state (c_itemId c) = Some it"
    "s_placed state' = s_placed state @ [placed_from_candidate c it]"
    "s_vehicle state' = s_vehicle state" "s_items_by_id state' = s_items_by_id state"
    "s_mode state' = s_mode state" "s_unplaced state' = s_unplaced state"
    "s_debug state' = s_debug state"
    "s_loads state' = Some (compute_loads (s_placed state') (s_vehicle state'))"
    "s_free_rects state' = reserve (s_free_rects state)
        (minX (c_aabb c), maxX (c_aabb c), minZ (c_aabb c), maxZ (c_aabb c))"
  using assms by (auto simp: commit_def Let_def split: option.splits)

lemma commit_total:
  "s_items_by_id state (c_itemId c) \<noteq> None \<Longrightarrow> commit state c \<noteq> None"
  by (auto simp: commit_def Let_def split: option.splits)

lemma group_placed_cong:
  "s_items_by_id state' = s_items_by_id state \<Longrightarrow> group_placed state' grp = group_placed state grp"
  by (induction grp) (simp_all cong: option.case_cong)

lemma commit_all_SomeD:
  "commit_all state grp = Some state' \<Longrightarrow>
     (\<exists>ps. group_placed state grp = Some ps \<and> s_placed state' = s_placed state @ ps)
     \<and> s_vehicle state' = s_vehicle state \<and> s_items_by_id state' = s_items_by_id state
     \<and> s_mode state' = s_mode state \<and> s_unplaced state' = s_unplaced state
     \<and> s_debug state' = s_debug state
     \<and> (grp \<noteq> [] \<longrightarrow> s_loads state' = Some (compute_loads (s_placed state') (s_vehicle state')))
     \<and> (grp = [] \<longrightarrow> state' = state)"
proof (induction grp arbitrary: state)
  case Nil
  then show ?case by simp
next
  case (Cons c cs)
  from Cons.prems obtain st1 where c1: "commit state c = Some st1"
    and rest: "commit_all st1 cs = Some state'"
    by (auto split: option.splits)
  from c1 obtain it where it: "s_items_by_id state (c_itemId c) = Some it"
    "s_placed st1 = s_placed state @ [placed_from_candidate c it]"
    "s_vehicle st1 = s_vehicle state" "s_items_by_id st1 = s_items_by_id state"
    "s_mode st1 = s_mode state" "s_unplaced st1 = s_unplaced state"
    "s_debug st1 = s_debug state"
    "s_loads st1 = Some (compute_loads (s_placed st1) (s_vehicle st1))"
    by (rule commit_SomeD)
  from Cons.IH [OF rest] obtain ps where ps: "group_placed st1 cs = Some ps"
    "s_placed state' = s_placed st1 @ ps"
    and fr: "s_vehicle state' = s_vehicle st1" "s_items_by_id state' = s_items_by_id st1"
      "s_mode state' = s_mode st1" "s_unplaced state' = s_unplaced st1"
      "s_debug state' = s_debug st1"
      "cs \<noteq> [] \<longrightarrow> s_loads state' = Some (compute_loads (s_placed state') (s_vehicle state'))"
      "cs = [] \<longrightarrow> state' = st1"
    by blast
  have "group_placed state cs = Some ps"
    using ps(1) group_placed_cong [OF it(4)] by simp
  then have "group_placed state (c # cs) = Some (placed_from_candidate c it # ps)"
    using it(1) by simp
  moreover have "s_placed state' = s_placed state @ placed_from_candidate c it # ps"
    using ps(2) it(2) by simp
  moreover have "s_loads state' = Some (compute_loads (s_placed state') (s_vehicle state'))"
    using fr(6,7) it(8) by (cases "cs = []") auto
  ultimately show ?case using fr it by simp
qed

lemma commit_all_total:
  "group_placed state grp \<noteq> None \<Longrightarrow> commit_all state grp \<noteq> None"
proof (induction grp arbitrary: state)
  case Nil
  then show ?case by simp
next
  case (Cons c cs)
  from Cons.prems obtain it where it: "s_items_by_id state (c_itemId c) = Some it"
    and g: "group_placed state cs \<noteq> None"
    by (auto split: option.splits)
  then obtain st1 where c1: "commit state c = Some st1"
    using commit_total [of state c] by auto
  then have "s_items_by_id st1 = s_items_by_id state"
    by (rule commit_SomeD)
  with g have "group_placed st1 cs \<noteq> None"
    using group_placed_cong [of st1 state cs] by simp
  from Cons.IH [OF this] c1 show ?case by simp
qed

lemma group_placed_aabb:
  "group_placed state grp = Some ps \<Longrightarrow>
     map p_aabb ps = map c_aabb grp \<and> map p_y ps = map c_y grp
     \<and> map (\<lambda>p. it_id (p_item p)) ps = map (\<lambda>c. it_id (the (s_items_by_id state (c_itemId c)))) grp"
  by (induction grp arbitrary: ps) (auto simp: placed_from_candidate_def split: option.splits)

subsection \<open>What the gates guarantee\<close>

lemma aabb_intersects_sym: "aabb_intersects a b e = aabb_intersects b a e"
  by (auto simp: aabb_intersects_def)

lemma collides_with_any_iff:
  "collides_with_any a ps e \<longleftrightarrow> (\<exists>p \<in> set ps. aabb_intersects a (p_aabb p) e)"
  by (induction ps) auto

definition apart :: "AABB \<Rightarrow> AABB \<Rightarrow> bool" where
  "apart a b = (\<not> aabb_intersects a b default_eps)"

lemma internal_collision_apart:
  "\<not> internal_collision earlier grp \<Longrightarrow> sorted_wrt apart (map c_aabb earlier)
   \<Longrightarrow> sorted_wrt apart (map c_aabb (earlier @ grp))"
proof (induction grp arbitrary: earlier)
  case Nil
  then show ?case by simp
next
  case (Cons c rest)
  from Cons.prems(1) have nc: "\<forall>d \<in> set earlier. \<not> aabb_intersects (c_aabb c) (c_aabb d) default_eps"
    and r: "\<not> internal_collision (earlier @ [c]) rest"
    by (auto simp: list_ex_iff split: if_splits)
  from nc have "\<forall>d \<in> set earlier. apart (c_aabb d) (c_aabb c)"
    by (simp add: apart_def aabb_intersects_sym [of "c_aabb c"])
  then have "sorted_wrt apart (map c_aabb (earlier @ [c]))"
    using Cons.prems(2) by (simp add: sorted_wrt_append)
  from Cons.IH [OF r this] show ?case by simp
qed

lemma group_gates_NoneD:
  "group_gates state grp = None \<Longrightarrow> c \<in> set grp \<Longrightarrow>
     \<not> oob_check (c_aabb c) (s_vehicle state) default_eps
     \<and> (\<forall>p \<in> set (s_placed state). \<not> aabb_intersects (c_aabb c) (p_aabb p) default_eps)"
  by (induction grp)
     (auto simp: check_oob_def check_collision_def collides_with_any_iff split: if_splits)

lemma can_commit_group_TrueD:
  assumes "can_commit_group state grp = Some (True, r)"
  obtains ps where "\<not> internal_collision [] grp" "group_gates state grp = None"
    "group_placed state grp = Some ps"
    "fst (check_loads (compute_loads (s_placed state @ ps) (s_vehicle state)) (s_vehicle state))"
  using assms
  by (auto simp: can_commit_group_def Let_def split: if_splits option.splits prod.splits bool.splits)

lemma can_place_TrueD:
  assumes "can_place state c = Some (True, r)"
  obtains it where "\<not> oob_check (c_aabb c) (s_vehicle state) default_eps"
    "\<forall>p \<in> set (s_placed state). \<not> aabb_intersects (c_aabb c) (p_aabb p) default_eps"
    "s_items_by_id state (c_itemId c) = Some it"
    "fst (check_loads (compute_loads (s_placed state @ [placed_from_candidate c it]) (s_vehicle state))
            (s_vehicle state))"
  using assms
  by (auto simp: can_place_def check_oob_def check_collision_def collides_with_any_iff Let_def
      split: if_splits option.splits prod.splits bool.splits)

lemma eval_single_SomeD:
  "eval_single cfg state c = Some (Some sc) \<Longrightarrow> \<exists>r. can_place state c = Some (True, r)"
  by (auto simp: eval_single_def split: option.splits prod.splits bool.splits)

subsection \<open>The three outcomes of an iteration\<close>

lemma pack_iteration_elim:
  assumes "pack_iteration cfg state remaining = Some (state', r)"
  obtains
    (exhausted)
      "scan_patterns cfg state remaining
         (group_pattern_candidates (iteration_candidates cfg state remaining)) None = Some None"
      "scan_singles cfg state (iteration_candidates cfg state remaining) None = Some None"
      "r = None" "s_placed state' = s_placed state" "s_free_rects state' = s_free_rects state"
      "s_loads state' = s_loads state"
      "s_unplaced state' = s_unplaced state @ map (\<lambda>it. it\<lparr>it_status := Status_unplaced\<rparr>) remaining"
      "s_vehicle state' = s_vehicle state" "s_items_by_id state' = s_items_by_id state"
      "s_mode state' = s_mode state"
  | (pattern) b ps where
      "scan_patterns cfg state remaining
         (group_pattern_candidates (iteration_candidates cfg state remaining)) None = Some (Some b)"
      "group_placed state (snd (snd b)) = Some ps"
      "r = Some (filter (\<lambda>it. it_id it \<notin> set (map c_itemId (snd (snd b)))) remaining)"
      "s_placed state' = s_placed state @ ps"
      "s_unplaced state' = s_unplaced state"
      "s_vehicle state' = s_vehicle state" "s_items_by_id state' = s_items_by_id state"
      "s_mode state' = s_mode state"
  | (single) b it where
      "scan_patterns cfg state remaining
         (group_pattern_candidates (iteration_candidates cfg state remaining)) None = Some None"
      "scan_singles cfg state (iteration_candidates cfg state remaining) None = Some (Some b)"
      "s_items_by_id state (c_itemId (snd b)) = Some it"
      "r = Some (filter (\<lambda>it. it_id it \<noteq> c_itemId (snd b)) remaining)"
      "s_placed state' = s_placed state @ [placed_from_candidate (snd b) it]"
      "s_unplaced state' = s_unplaced state"
      "s_vehicle state' = s_vehicle state" "s_items_by_id state' = s_items_by_id state"
      "s_mode state' = s_mode state"
      "s_free_rects state' = reserve (s_free_rects state)
        (minX (c_aabb (snd b)), maxX (c_aabb (snd b)), minZ (c_aabb (snd b)), maxZ (c_aabb (snd b)))"
      "s_loads state' = Some (compute_loads (s_placed state') (s_vehicle state'))"
proof -
  from assms obtain best_pat best_single d where
    bp: "scan_patterns cfg state remaining
        (group_pattern_candidates (iteration_candidates cfg state remaining)) None = Some best_pat"
    and bs: "scan_singles cfg state (iteration_candidates cfg state remaining) None = Some best_single"
    and ap: "apply_choice (state\<lparr>s_debug := d\<rparr>) remaining (decide best_pat best_single)
               = Some (state', r)"
    by (rule pack_iteration_cases)
  show ?thesis
  proof (cases best_pat)
    case (Some b)
    then have dec: "decide best_pat best_single = Choose_pattern (fst (snd b)) (snd (snd b))"
      by (simp add: decide_def)
    from ap [unfolded dec] obtain st1 where
      ca: "commit_all (state\<lparr>s_debug := d\<rparr>) (snd (snd b)) = Some st1"
      and st': "state' = emit st1 (Ev_pattern_committed (Some (fst (snd b)))
                   (length (snd (snd b))) (map c_itemId (snd (snd b))))"
      and r: "r = Some (filter (\<lambda>it. it_id it \<notin> set (map c_itemId (snd (snd b)))) remaining)"
      by (auto simp: Let_def split: option.splits)
    from commit_all_SomeD [OF ca] obtain ps where
      "group_placed state (snd (snd b)) = Some ps" "s_placed st1 = s_placed state @ ps"
      "s_vehicle st1 = s_vehicle state" "s_items_by_id st1 = s_items_by_id state"
      "s_mode st1 = s_mode state" "s_unplaced st1 = s_unplaced state"
      by auto
    then show ?thesis
      using pattern [of b ps] bp Some r st' by (simp add: emit_def)
  next
    case None
    show ?thesis
    proof (cases best_single)
      case n: None
      with None have dec: "decide best_pat best_single = Choose_exhausted"
        by (simp add: decide_def)
      from ap [unfolded dec] show ?thesis
        using exhausted bp bs None n by (auto simp: Let_def emit_def)
    next
      case (Some b)
      with None have dec: "decide best_pat best_single = Choose_single (snd b)"
        by (simp add: decide_def)
      from ap [unfolded dec] obtain st1 where
        c1: "commit (state\<lparr>s_debug := d\<rparr>) (snd b) = Some st1"
        and st': "state' = emit st1 (Ev_candidate_chosen (c_itemId (snd b)) (c_kind (snd b)))"
        and r: "r = Some (filter (\<lambda>it. it_id it \<noteq> c_itemId (snd b)) remaining)"
        by (auto simp: Let_def split: option.splits)
      from c1 obtain it where "s_items_by_id (state\<lparr>s_debug := d\<rparr>) (c_itemId (snd b)) = Some it"
        "s_placed st1 = s_placed (state\<lparr>s_debug := d\<rparr>) @ [placed_from_candidate (snd b) it]"
        "s_vehicle st1 = s_vehicle (state\<lparr>s_debug := d\<rparr>)"
        "s_items_by_id st1 = s_items_by_id (state\<lparr>s_debug := d\<rparr>)"
        "s_mode st1 = s_mode (state\<lparr>s_debug := d\<rparr>)"
        "s_unplaced st1 = s_unplaced (state\<lparr>s_debug := d\<rparr>)"
        "s_loads st1 = Some (compute_loads (s_placed st1) (s_vehicle st1))"
        "s_free_rects st1 = reserve (s_free_rects (state\<lparr>s_debug := d\<rparr>))
          (minX (c_aabb (snd b)), maxX (c_aabb (snd b)), minZ (c_aabb (snd b)), maxZ (c_aabb (snd b)))"
        by (rule commit_SomeD)
      then show ?thesis
        using single [of b it] bp bs None Some r st' by (simp add: emit_def)
    qed
  qed
qed

lemma scan_patterns_feasible:
  assumes "scan_patterns cfg state remaining groups None = Some (Some b)"
  shows "snd b \<in> set groups"
    and "eval_pattern_group cfg state remaining (snd (snd b)) = Some (Some (fst b))"
  using scan_patterns_result [OF assms] by simp_all

lemma scan_singles_feasible:
  assumes "scan_singles cfg state cands None = Some (Some b)"
  shows "snd b \<in> set cands" and "m_patternId (c_meta (snd b)) = None"
    and "eval_single cfg state (snd b) = Some (Some (fst b))"
  using scan_singles_result [OF assms] by simp_all

subsection \<open>Invariants of the plan state\<close>

definition plan_ok :: "PlanState \<Rightarrow> bool" where
  "plan_ok state \<longleftrightarrow>
     sorted_wrt apart (map p_aabb (s_placed state))
     \<and> (\<forall>p \<in> set (s_placed state). \<not> oob_check (p_aabb p) (s_vehicle state) default_eps)
     \<and> (s_placed state \<noteq> [] \<longrightarrow>
          fst (check_loads (compute_loads (s_placed state) (s_vehicle state)) (s_vehicle state)))"

lemma plan_ok_iteration:
  assumes it: "pack_iteration cfg state remaining = Some (state', r)" and ok: "plan_ok state"
  shows "plan_ok state'"
  using it
proof (cases rule: pack_iteration_elim)
  case exhausted
  with ok show ?thesis by (simp add: plan_ok_def)
next
  case (pattern b ps)
  from scan_patterns_feasible(2) [OF pattern(1)] obtain rs where
    "can_commit_group state (snd (snd b)) = Some (True, rs)"
    using eval_pattern_group_feasible by blast
  then obtain ps' where g: "\<not> internal_collision [] (snd (snd b))"
    "group_gates state (snd (snd b)) = None" "group_placed state (snd (snd b)) = Some ps'"
    "fst (check_loads (compute_loads (s_placed state @ ps') (s_vehicle state)) (s_vehicle state))"
    by (rule can_commit_group_TrueD)
  with pattern(2) have [simp]: "ps' = ps" by simp
  have ab: "map p_aabb ps = map c_aabb (snd (snd b))"
    using group_placed_aabb [OF pattern(2)] by simp
  have "sorted_wrt apart (map c_aabb ([] @ snd (snd b)))"
    by (rule internal_collision_apart [OF g(1)]) simp
  then have s1: "sorted_wrt apart (map p_aabb ps)" using ab by simp
  have gate: "\<forall>c \<in> set (snd (snd b)). \<not> oob_check (c_aabb c) (s_vehicle state) default_eps
      \<and> (\<forall>p \<in> set (s_placed state). \<not> aabb_intersects (c_aabb c) (p_aabb p) default_eps)"
    using group_gates_NoneD [OF g(2)] by blast
  have "set (map p_aabb ps) = set (map c_aabb (snd (snd b)))" using ab by simp
  then have mem: "\<forall>q \<in> set ps. \<exists>c \<in> set (snd (snd b)). p_aabb q = c_aabb c"
    by (metis (no_types, lifting) image_iff list.set_map)
  have s2: "\<forall>p \<in> set (s_placed state). \<forall>q \<in> set ps. apart (p_aabb p) (p_aabb q)"
    using gate mem by (auto simp: apart_def aabb_intersects_sym [of "p_aabb _" "c_aabb _"])
  have s3: "\<forall>q \<in> set ps. \<not> oob_check (p_aabb q) (s_vehicle state) default_eps"
    using gate mem by fastforce
  show ?thesis
    using ok s1 s2 s3 g(4) pattern(4,6)
    by (auto simp: plan_ok_def sorted_wrt_append)
next
  case (single b it)
  from scan_singles_feasible(3) [OF single(2)] obtain rs where
    "can_place state (snd b) = Some (True, rs)"
    using eval_single_SomeD by blast
  then obtain it' where g: "\<not> oob_check (c_aabb (snd b)) (s_vehicle state) default_eps"
    "\<forall>p \<in> set (s_placed state). \<not> aabb_intersects (c_aabb (snd b)) (p_aabb p) default_eps"
    "s_items_by_id state (c_itemId (snd b)) = Some it'"
    "fst (check_loads (compute_loads (s_placed state @ [placed_from_candidate (snd b) it'])
            (s_vehicle state)) (s_vehicle state))"
    by (rule can_place_TrueD)
  with single(3) have [simp]: "it' = it" by simp
  have [simp]: "p_aabb (placed_from_candidate (snd b) it) = c_aabb (snd b)"
    by (simp add: placed_from_candidate_def)
  have "\<forall>p \<in> set (s_placed state). apart (p_aabb p) (c_aabb (snd b))"
    using g(2) by (simp add: apart_def aabb_intersects_sym [of "c_aabb (snd b)"])
  then show ?thesis
    using ok g(1,4) single(5,7)
    by (auto simp: plan_ok_def sorted_wrt_append)
qed

lemma pack_loop_invariant:
  assumes "pack_loop cfg state remaining = Some final" and "I state"
    and "\<And>s rm s' r. I s \<Longrightarrow> pack_iteration cfg s rm = Some (s', r) \<Longrightarrow> I s'"
  shows "I final"
  using assms
proof (induction cfg state remaining rule: pack_loop.induct)
  case (1 cfg state remaining)
  note step = "1.prems"(3)
  show ?case
  proof (cases "remaining = []")
    case True
    with "1.prems" show ?thesis by simp
  next
    case False
    with "1.prems"(1) obtain s' r where it: "pack_iteration cfg state remaining = Some (s', r)"
      by (cases "pack_iteration cfg state remaining") auto
    have I': "I s'" using step [OF "1.prems"(2) it] .
    show ?thesis
    proof (cases r)
      case None
      with it False "1.prems"(1) have "final = s'" by simp
      with I' show ?thesis by simp
    next
      case (Some rem')
      with it False "1.prems"(1) have "pack_loop cfg s' rem' = Some final" by simp
      from "1.IH" [OF False it refl Some this I' step] show ?thesis .
    qed
  qed
qed

subsection \<open>No lookup ever raises\<close>

definition lookups_ok :: "PlanState \<Rightarrow> Item list \<Rightarrow> bool" where
  "lookups_ok state remaining \<longleftrightarrow> (\<forall>it \<in> set remaining. s_items_by_id state (it_id it) \<noteq> None)"

lemma can_place_total:
  "s_items_by_id state (c_itemId c) \<noteq> None \<Longrightarrow> can_place state c \<noteq> None"
  by (auto simp: can_place_def Let_def split: prod.splits bool.splits option.splits)

lemma score_candidate_total:
  "s_items_by_id state (c_itemId c) \<noteq> None \<Longrightarrow> score_candidate state c md \<noteq> None"
  by (auto simp: score_candidate_def split: option.splits)

lemma eval_single_total:
  "s_items_by_id state (c_itemId c) \<noteq> None \<Longrightarrow> eval_single cfg state c \<noteq> None"
  using can_place_total [of state c] score_candidate_total [of state c "s_mode state"]
  by (auto simp: eval_single_def Let_def split: prod.splits bool.splits option.splits)

lemma scan_singles_total:
  "\<forall>c \<in> set cands. m_patternId (c_meta c) = None \<longrightarrow> s_items_by_id state (c_itemId c) \<noteq> None
   \<Longrightarrow> scan_singles cfg state cands best \<noteq> None"
proof (induction cands arbitrary: best)
  case Nil
  then show ?case by simp
next
  case (Cons c cands)
  show ?case
  proof (cases "m_patternId (c_meta c) \<noteq> None")
    case True
    with Cons show ?thesis by simp
  next
    case False
    with Cons.prems have "eval_single cfg state c \<noteq> None"
      using eval_single_total by simp
    with False Cons show ?thesis by (auto split: option.splits)
  qed
qed

lemma group_placed_total:
  "\<forall>c \<in> set grp. s_items_by_id state (c_itemId c) \<noteq> None \<Longrightarrow> group_placed state grp \<noteq> None"
  by (induction grp) (auto split: option.splits)

lemma group_policies_total:
  "\<forall>c \<in> set grp. s_items_by_id state (c_itemId c) \<noteq> None \<Longrightarrow> group_policies cfg state grp \<noteq> None"
  by (induction grp) (auto simp: Let_def split: option.splits)

lemma group_sums_total:
  "\<forall>c \<in> set grp. s_items_by_id state (c_itemId c) \<noteq> None \<Longrightarrow> group_sums cfg state grp pols \<noteq> None"
proof (induction cfg state grp pols rule: group_sums.induct)
  case (1 cfg state c cs pol pols)
  obtain sc where sc: "score_candidate state c (s_mode state) = Some sc"
    using score_candidate_total [of state c "s_mode state"] "1.prems" by auto
  have "group_sums cfg state cs pols \<noteq> None"
    using "1.IH" [OF sc] "1.prems" by simp
  then obtain t where "group_sums cfg state cs pols = Some t" by auto
  with sc show ?case by (simp add: Let_def)
qed simp_all

lemma can_commit_group_total:
  "\<forall>c \<in> set grp. s_items_by_id state (c_itemId c) \<noteq> None \<Longrightarrow> can_commit_group state grp \<noteq> None"
  using group_placed_total [of grp state]
  by (auto simp: can_commit_group_def Let_def split: prod.splits bool.splits option.splits)

lemma eval_pattern_group_total:
  assumes "lookups_ok state remaining"
  shows "eval_pattern_group cfg state remaining grp \<noteq> None"
proof (cases "list_ex (\<lambda>c. c_itemId c \<notin> set (map it_id remaining)) grp")
  case True
  then show ?thesis by (simp add: eval_pattern_group_def)
next
  case False
  then have "\<forall>c \<in> set grp. c_itemId c \<in> it_id ` set remaining"
    by (auto simp: list_ex_iff)
  with assms have l: "\<forall>c \<in> set grp. s_items_by_id state (c_itemId c) \<noteq> None"
    by (auto simp: lookups_ok_def)
  obtain ok rs where cc: "can_commit_group state grp = Some (ok, rs)"
    using can_commit_group_total [OF l] by (cases "can_commit_group state grp") auto
  obtain gp where gp: "group_policies cfg state grp = Some gp"
    using group_policies_total [OF l, of cfg] by auto
  show ?thesis
  proof (cases ok)
    case False
    with cc \<open>\<not> list_ex (\<lambda>c. c_itemId c \<notin> set (map it_id remaining)) grp\<close> show ?thesis
      by (simp add: eval_pattern_group_def)
  next
    case True
    show ?thesis
    proof (cases gp)
      case None
      with cc gp True \<open>\<not> list_ex (\<lambda>c. c_itemId c \<notin> set (map it_id remaining)) grp\<close> show ?thesis
        by (simp add: eval_pattern_group_def)
    next
      case (Some pols)
      obtain t where "group_sums cfg state grp pols = Some t"
        using group_sums_total [OF l, of cfg pols] by auto
      with Some cc gp True \<open>\<not> list_ex (\<lambda>c. c_itemId c \<notin> set (map it_id remaining)) grp\<close>
      show ?thesis
        by (simp add: eval_pattern_group_def Let_def)
    qed
  qed
qed

lemma scan_patterns_total:
  "lookups_ok state remaining \<Longrightarrow> scan_patterns cfg state remaining groups best \<noteq> None"
proof (induction groups arbitrary: best)
  case Nil
  then show ?case by simp
next
  case (Cons e groups)
  from eval_pattern_group_total [OF Cons.prems, of cfg "snd e"] Cons
  show ?case by (auto split: option.splits)
qed

lemma pack_iteration_total:
  assumes "lookups_ok state remaining"
  shows "pack_iteration cfg state remaining \<noteq> None"
proof -
  let ?cands = "iteration_candidates cfg state remaining"
  let ?groups = "group_pattern_candidates ?cands"
  obtain d1 where d1: "emit_candidates_generated cfg state remaining = state\<lparr>s_debug := d1\<rparr>"
    using emit_candidates_generated_eq by blast
  obtain d2 where d2: "emit_reject_summary (state\<lparr>s_debug := d1\<rparr>) ?groups = state\<lparr>s_debug := d2\<rparr>"
    using emit_reject_summary_eq by blast
  obtain best_pat where bp: "scan_patterns cfg state remaining ?groups None = Some best_pat"
    using scan_patterns_total [OF assms, of cfg ?groups None] by auto
  have "s_items_by_id state (c_itemId c) \<noteq> None"
    if "c \<in> set ?cands" "m_patternId (c_meta c) = None" for c
  proof -
    from iteration_single_itemId [OF that] obtain it where "it \<in> set remaining" "it_id it = c_itemId c"
      by auto
    with assms show ?thesis unfolding lookups_ok_def by metis
  qed
  then have "\<forall>c \<in> set ?cands. m_patternId (c_meta c) = None \<longrightarrow> s_items_by_id state (c_itemId c) \<noteq> None"
    by blast
  then obtain best_single where bs: "scan_singles cfg state ?cands None = Some best_single"
    using scan_singles_total [of ?cands state cfg None] by auto
  have "apply_choice (state\<lparr>s_debug := d2\<rparr>) remaining (decide best_pat best_single) \<noteq> None"
  proof (cases best_pat)
    case (Some b)
    from scan_patterns_feasible(2) [OF bp [unfolded Some]] obtain rs where
      "can_commit_group state (snd (snd b)) = Some (True, rs)"
      using eval_pattern_group_feasible by blast
    then obtain ps where "group_placed state (snd (snd b)) = Some ps"
      by (rule can_commit_group_TrueD)
    then have "group_placed (state\<lparr>s_debug := d2\<rparr>) (snd (snd b)) \<noteq> None" by simp
    from commit_all_total [OF this] Some show ?thesis
      by (auto simp: decide_def Let_def split: option.splits)
  next
    case None
    show ?thesis
    proof (cases best_single)
      case n: None
      with None show ?thesis by (simp add: decide_def Let_def)
    next
      case (Some b)
      from scan_singles_feasible(3) [OF bs [unfolded Some]] obtain rs where
        "can_place state (snd b) = Some (True, rs)"
        using eval_single_SomeD by blast
      then obtain it where "s_items_by_id state (c_itemId (snd b)) = Some it"
        by (rule can_place_TrueD)
      then have "s_items_by_id (state\<lparr>s_debug := d2\<rparr>) (c_itemId (snd b)) \<noteq> None" by simp
      from commit_total [OF this] None Some show ?thesis
        by (auto simp: decide_def Let_def split: option.splits)
    qed
  qed
  then show ?thesis
    using bp bs d1 d2 by (auto simp: pack_iteration_def Let_def split: option.splits)
qed

lemma lookups_ok_iteration:
  assumes "pack_iteration cfg state remaining = Some (state', Some remaining')"
    and "lookups_ok state remaining"
  shows "lookups_ok state' remaining'"
  using assms(1)
proof (cases rule: pack_iteration_elim)
  case exhausted
  then show ?thesis by simp
next
  case (pattern b ps)
  with assms(2) show ?thesis by (auto simp: lookups_ok_def)
next
  case (single b it)
  with assms(2) show ?thesis by (auto simp: lookups_ok_def)
qed

lemma pack_loop_total:
  "lookups_ok state remaining \<Longrightarrow> pack_loop cfg state remaining \<noteq> None"
proof (induction cfg state remaining rule: pack_loop.induct)
  case (1 cfg state remaining)
  show ?case
  proof (cases "remaining = []")
    case True
    then show ?thesis by simp
  next
    case False
    from pack_iteration_total [OF "1.prems", of cfg] obtain s' r where
      it: "pack_iteration cfg state remaining = Some (s', r)"
      by (cases "pack_iteration cfg state remaining") auto
    show ?thesis
    proof (cases r)
      case None
      with it False show ?thesis by simp
    next
      case (Some rem')
      have "lookups_ok s' rem'"
        using lookups_ok_iteration it Some "1.prems" by blast
      from "1.IH" [OF False it refl Some this] it Some False show ?thesis by simp
    qed
  qed
qed

text \<open>The state \<open>pack\<close> starts its loop from, and the queue it starts with.\<close>

definition initial_state :: "Settings \<Rightarrow> Item list \<Rightarrow> Vehicle \<Rightarrow> string \<Rightarrow> string \<Rightarrow> PlanState" where
  "initial_state cfg items vehicle task_id transport_type =
     \<lparr>s_task_id = task_id, s_transport_type = transport_type, s_vehicle = vehicle,
      s_mode = detect_mode cfg items vehicle,
      s_debug = [Ev_mode_detected (detect_mode cfg items vehicle)],
      s_items_by_id = map_of (rev (map (\<lambda>it. (it_id it, it)) items)), s_placed = [],
      s_unplaced = [], s_free_rects = init_for_vehicle vehicle, s_loads = None\<rparr>"

definition initial_queue :: "Settings \<Rightarrow> Item list \<Rightarrow> Vehicle \<Rightarrow> Item list" where
  "initial_queue cfg items vehicle =
     sort_key (\<lambda>it. sort_key_for_queue cfg it vehicle (detect_mode cfg items vehicle)) items"

lemma pack_unfold:
  "pack cfg items vehicle task_id transport_type =
     map_option snapshot (pack_loop cfg (initial_state cfg items vehicle task_id transport_type)
                            (initial_queue cfg items vehicle))"
  by (simp add: pack_def initial_state_def initial_queue_def Let_def init_free_rects_def emit_def)

lemma lookups_ok_initial:
  "lookups_ok (initial_state cfg items vehicle task_id transport_type) (initial_queue cfg items vehicle)"
  by (auto simp: lookups_ok_def initial_state_def initial_queue_def map_of_eq_None_iff image_iff)

lemma pack_total: "\<exists>r. pack cfg items vehicle task_id transport_type = Some r"
  using pack_loop_total [OF lookups_ok_initial, of cfg cfg items vehicle task_id transport_type]
  by (auto simp: pack_unfold)

lemma pack_SomeD:
  assumes "pack cfg items vehicle task_id transport_type = Some r"
  obtains final where
    "pack_loop cfg (initial_state cfg items vehicle task_id transport_type)
        (initial_queue cfg items vehicle) = Some final"
    "r = snapshot final"
  using assms by (auto simp: pack_unfold)

lemma plan_ok_initial: "plan_ok (initial_state cfg items vehicle task_id transport_type)"
  by (simp add: plan_ok_def initial_state_def)

lemma pack_plan_ok:
  assumes "pack cfg items vehicle task_id transport_type = Some r"
  shows "sorted_wrt apart (map p_aabb (r_placed r))"
    and "\<forall>p \<in> set (r_placed r). \<not> oob_check (p_aabb p) vehicle default_eps"
    and "r_placed r \<noteq> [] \<longrightarrow> fst (check_loads (compute_loads (r_placed r) vehicle) vehicle)"
proof -
  from assms obtain final where
    l: "pack_loop cfg (initial_state cfg items vehicle task_id transport_type)
        (initial_queue cfg items vehicle) = Some final"
    and r: "r = snapshot final"
    by (rule pack_SomeD)
  have i0: "plan_ok (initial_state cfg items vehicle task_id transport_type)
      \<and> s_vehicle (initial_state cfg items vehicle task_id transport_type) = vehicle"
    using plan_ok_initial by (simp add: initial_state_def)
  have step: "plan_ok s' \<and> s_vehicle s' = vehicle"
    if "plan_ok s \<and> s_vehicle s = vehicle" "pack_iteration cfg s rm = Some (s', r')"
    for s rm s' r'
  proof -
    have "s_vehicle s' = s_vehicle s"
      using that(2) by (cases rule: pack_iteration_elim) simp_all
    with that plan_ok_iteration [OF that(2)] show ?thesis by simp
  qed
  have ok: "plan_ok final \<and> s_vehicle final = vehicle"
    by (rule pack_loop_invariant [OF l, where I = "\<lambda>s. plan_ok s \<and> s_vehicle s = vehicle"])
       (use i0 step in blast)+
  then show "sorted_wrt apart (map p_aabb (r_placed r))"
    and "\<forall>p \<in> set (r_placed r). \<not> oob_check (p_aabb p) vehicle default_eps"
    and "r_placed r \<noteq> [] \<longrightarrow> fst (check_loads (compute_loads (r_placed r) vehicle) vehicle)"
    using r by (auto simp: plan_ok_def snapshot_def)
qed

section \<open>Example inputs\<close>

text \<open>
  Concrete inputs for the closed instances below: a settings object with every optional
  attribute absent, a 2.45 m by 13.60 m by 2.70 m hold, and a unit with the given
  identifier, width, length, height and weight.
\<close>

definition example_settings :: Settings where
  "example_settings =
     \<lparr>EPS = 1 / 10 ^ 9, MODE_PRESSURE_THRESHOLD = 1,
      FILL_FACTOR_FLOOR_DEFAULT = 9 / 10, FILL_FACTOR_VOLUME_DEFAULT = 8 / 10,
      TOP_N_WINDOW = 40,
      POLICY_SCORE_WEIGHT = None, PACK_DENSITY_W = None, PACK_TOUCH_W = None,
      PACK_SLACK_W = None, POLICY_ZONES = None, POLICY_CLASS_PRIORITY = None,
      POLICY_HI_WEIGHT_ABS = None, POLICY_HI_VOL_ABS = None,
      POLICY_HI_WEIGHT_ABS_MIXED = None, POLICY_W_HI_AB_BONUS = None,
      POLICY_W_HI_CD_PENALTY = None, POLICY_W_LO_CD_BONUS = None,
      POLICY_W_LO_AB_PENALTY = None, POLICY_V_BIG_ABC_BONUS = None,
      POLICY_V_BIG_D_PENALTY = None, POLICY_V_SMALL_CD_BONUS = None,
      POLICY_BIG_FOOTPRINT_M2 = None, POLICY_M_HI_AB_BONUS = None,
      POLICY_M_LO_AB_PENALTY = None, POLICY_OVERSIZE_BONUS = None,
      POLICY_BOX_AB_PENALTY = None, POLICY_BOX_CD_BONUS = None,
      POLICY_HARD_OVERSIZE_IN_D = None\<rparr>"

definition example_vehicle :: "real option \<Rightarrow> real option \<Rightarrow> real option \<Rightarrow> Vehicle" where
  "example_vehicle payload_max a_pos b_pos =
     \<lparr>innerWidth = 245 / 100, innerLength = 136 / 10, innerHeight = 27 / 10,
      fillFactorFloor = None, fillFactorVolume = None, payloadMaxKg = payload_max,
      axleALimitKg = None, axleBLimitKg = None,
      axleAPosFromHeadM = a_pos, axleBPosFromHeadM = b_pos\<rparr>"

definition example_item :: "string \<Rightarrow> real \<Rightarrow> real \<Rightarrow> real \<Rightarrow> real \<Rightarrow> Item" where
  "example_item ident w l h kg =
     \<lparr>it_id = ident, it_palletType = None, it_palletTypeNorm = None,
      it_width = w, it_length = l, it_height = h, it_weight = kg, it_ratio = 1,
      it_canBeBase = True, it_canBeStacked = False, it_status = Status_ok\<rparr>"

definition example_placed :: "Item \<Rightarrow> real \<Rightarrow> real \<Rightarrow> PlacedItem" where
  "example_placed item x z =
     \<lparr>p_item = item, p_x = x, p_y = 0, p_z = z, p_rotationY = 0,
      p_dims = (it_width item, it_height item, it_length item),
      p_aabb = aabb_from_center x (it_height item / 2) z
                 (it_width item) (it_height item) (it_length item),
      p_corner = (x - it_width item / 2, z - it_length item / 2),
      p_status = it_status item\<rparr>"

section \<open>Properties of the mode classifier\<close>

text \<open>
  C6, as the claim states it, fails on the boundary: the source compares the pressures
  with \<open>>=\<close> and \<open><\<close>, so a weight-pressure equal to the threshold (which does not
  exceed it) already selects mode "weight". Here one unit of 1000 kg meets a payload limit
  of 1000 kg under a threshold of 1.
\<close>

theorem detect_mode_threshold_counterexample:
  "mode (detect_mode example_settings [example_item ''u1'' 1 1 1 1000]
           (example_vehicle (Some 1000) None None)) = Mode_weight
   \<and> \<not> (weight_pressure_of example_settings [example_item ''u1'' 1 1 1 1000]
           (example_vehicle (Some 1000) None None)
         > MODE_PRESSURE_THRESHOLD example_settings)"
  by (simp add: detect_mode_def Let_def weight_pressure_of_def floor_pressure_of_def
      total_weight_def total_floor_demand_def item_ratio_def example_settings_def
      example_item_def example_vehicle_def get_setting_def)

text \<open>
  C6 (amended): for an empty unit set \<open>detect_mode\<close> returns mode "mixed" with all three
  pressures 0 and alpha = 0.5. For a non-empty set it reports the three computed
  pressures and returns mode "weight" exactly when the weight-pressure is at least the
  threshold and the floor-pressure is below it, mode "volume" (the floor/volume mode)
  exactly when the floor-pressure is at least the threshold and the weight-pressure is
  below it, and mode "mixed" otherwise; in mixed mode alpha is
  (weight-pressure - floor-pressure + 1) / 2 clamped to [0.2, 0.8], and in the two other
  modes no alpha is set.
\<close>

theorem detect_mode_cases:
  "detect_mode cfg [] v =
      \<lparr>mode = Mode_mixed, weight_pressure = 0, floor_pressure = 0, volume_pressure = 0,
       alpha = Some (1 / 2)\<rparr>
   \<and> (items \<noteq> [] \<longrightarrow>
        (let d = detect_mode cfg items v;
             wp = weight_pressure_of cfg items v;
             fp = floor_pressure_of cfg items v;
             thr = MODE_PRESSURE_THRESHOLD cfg
         in weight_pressure d = wp \<and> floor_pressure d = fp
            \<and> volume_pressure d = volume_pressure_of cfg items v
            \<and> (mode d = Mode_weight \<longleftrightarrow> wp \<ge> thr \<and> fp < thr)
            \<and> (mode d = Mode_volume \<longleftrightarrow> fp \<ge> thr \<and> wp < thr)
            \<and> (mode d = Mode_mixed \<longleftrightarrow> \<not> (wp \<ge> thr \<and> fp < thr) \<and> \<not> (fp \<ge> thr \<and> wp < thr))
            \<and> (mode d = Mode_mixed \<longrightarrow>
                  alpha d = Some (min (8 / 10) (max (2 / 10) ((wp - fp + 1) / 2)))
                  \<and> 2 / 10 \<le> the (alpha d) \<and> the (alpha d) \<le> 8 / 10)
            \<and> (mode d \<noteq> Mode_mixed \<longrightarrow> alpha d = None)))"
  by (auto simp add: detect_mode_def Let_def min_def max_def)

theorem detect_mode_cases_witness:
  "[example_item ''u1'' 1 1 1 500] \<noteq> []
   \<and> mode (detect_mode example_settings [example_item ''u1'' 1 1 1 500]
             (example_vehicle (Some 1000) None None)) = Mode_mixed
   \<and> weight_pressure_of example_settings [example_item ''u1'' 1 1 1 500]
         (example_vehicle (Some 1000) None None) = 1 / 2
   \<and> floor_pressure_of example_settings [example_item ''u1'' 1 1 1 500]
         (example_vehicle (Some 1000) None None) = 1000 / 29988
   \<and> alpha (detect_mode example_settings [example_item ''u1'' 1 1 1 500]
              (example_vehicle (Some 1000) None None))
       = Some (min (8 / 10) (max (2 / 10) ((1 / 2 - 1000 / 29988 + 1) / 2)))"
  using detect_mode_cases [of example_settings "example_vehicle (Some 1000) None None"
      "[example_item ''u1'' 1 1 1 500]"]
  by (simp add: Let_def weight_pressure_of_def floor_pressure_of_def
      total_weight_def total_floor_demand_def item_ratio_def example_settings_def
      example_item_def example_vehicle_def get_setting_def)

section \<open>Properties of the axle load model\<close>

text \<open>
  C7, as the claim states it, fails when both axle positions are configured but closer
  than 1e-9 to each other: the source then treats the axle model as absent and reports
  zero for both axles, while the lever-arm rule of the claim gives a non-zero share.
  Here a = 0 and b = 1e-10, with one unit of 100 kg at z = 0.
\<close>

theorem compute_loads_close_axles_counterexample:
  "axleAPosFromHeadM (example_vehicle None (Some 0) (Some (1 / 10 ^ 10))) = Some 0
   \<and> axleBPosFromHeadM (example_vehicle None (Some 0) (Some (1 / 10 ^ 10))) = Some (1 / 10 ^ 10)
   \<and> axleB_kg (compute_loads [example_placed (example_item ''u1'' 1 1 1 100) 0 0]
                 (example_vehicle None (Some 0) (Some (1 / 10 ^ 10)))) = 0
   \<and> it_weight (example_item ''u1'' 1 1 1 100)
       * ((p_z (example_placed (example_item ''u1'' 1 1 1 100) 0 0)
           + innerLength (example_vehicle None (Some 0) (Some (1 / 10 ^ 10))) / 2) - 0)
       / (1 / 10 ^ 10 - 0) = 6800000000000"
  by (simp add: compute_loads_def example_vehicle_def example_placed_def example_item_def)

text \<open>
  C7 (amended): \<open>compute_loads\<close> returns a payload equal to the sum of the placed units'
  weights. When an axle position is missing, or both are configured but closer than 1e-9
  to each other, only the payload is tracked and both axle loads are 0. When both
  positions a and b are configured and at least 1e-9 apart, a unit of weight w at
  longitudinal centre z contributes \<open>w * ((z + L/2) - a) / (b - a)\<close> to axle B and the
  remainder to axle A, and the axle totals are the sums of the contributions.
\<close>

theorem compute_loads_lever_rule:
  "payload_kg (compute_loads placed v) = sum_list (map (\<lambda>p. it_weight (p_item p)) placed)
   \<and> (axleAPosFromHeadM v = None \<or> axleBPosFromHeadM v = None \<longrightarrow>
        axleA_kg (compute_loads placed v) = 0 \<and> axleB_kg (compute_loads placed v) = 0)
   \<and> (\<forall>a b. axleAPosFromHeadM v = Some a \<and> axleBPosFromHeadM v = Some b
          \<and> \<bar>b - a\<bar> < 1 / 10 ^ 9 \<longrightarrow>
        axleA_kg (compute_loads placed v) = 0 \<and> axleB_kg (compute_loads placed v) = 0)
   \<and> (\<forall>a b. axleAPosFromHeadM v = Some a \<and> axleBPosFromHeadM v = Some b
          \<and> \<bar>b - a\<bar> \<ge> 1 / 10 ^ 9 \<longrightarrow>
        axleB_kg (compute_loads placed v) =
          sum_list (map (\<lambda>p. it_weight (p_item p) * ((p_z p + innerLength v / 2) - a) / (b - a))
                      placed)
        \<and> axleA_kg (compute_loads placed v) =
          sum_list (map (\<lambda>p. it_weight (p_item p)
                           - it_weight (p_item p) * ((p_z p + innerLength v / 2) - a) / (b - a))
                      placed))"
  by (auto simp: compute_loads_def Let_def split: option.splits)

theorem compute_loads_lever_rule_witness:
  "axleAPosFromHeadM (example_vehicle None (Some 1) (Some 11)) = Some 1
   \<and> axleBPosFromHeadM (example_vehicle None (Some 1) (Some 11)) = Some 11
   \<and> \<bar>11 - 1 :: real\<bar> \<ge> 1 / 10 ^ 9
   \<and> payload_kg (compute_loads
        [example_placed (example_item ''u1'' 1 1 1 100) 0 0,
         example_placed (example_item ''u2'' 1 1 1 50) 0 (-58 / 10)]
        (example_vehicle None (Some 1) (Some 11))) = 150
   \<and> axleB_kg (compute_loads
        [example_placed (example_item ''u1'' 1 1 1 100) 0 0,
         example_placed (example_item ''u2'' 1 1 1 50) 0 (-58 / 10)]
        (example_vehicle None (Some 1) (Some 11))) = 58
   \<and> axleA_kg (compute_loads
        [example_placed (example_item ''u1'' 1 1 1 100) 0 0,
         example_placed (example_item ''u2'' 1 1 1 50) 0 (-58 / 10)]
        (example_vehicle None (Some 1) (Some 11))) = 92"
  using compute_loads_lever_rule
    [of "[example_placed (example_item ''u1'' 1 1 1 100) 0 0,
          example_placed (example_item ''u2'' 1 1 1 50) 0 (-58 / 10)]"
        "example_vehicle None (Some 1) (Some 11)"]
  by (simp add: example_vehicle_def example_placed_def example_item_def)

end
